theory Spec2Isabelle
  imports Main "HOL-Library.Stream"
begin

section \<open>Workflow generation state machine\<close>

text \<open>
  A shallow embedding of \<^verbatim>\<open>src/lib/workflow-generation-state.ts\<close>: the state enum, the
  transition table, the execution state held by \<^verbatim>\<open>WorkflowGenerationStateManager\<close>, its
  methods, and the two wizard-step mapping functions.

  Conventions of the embedding:
  \<^item> a TypeScript interface is a record, the enum a datatype, an optional field an
    \<open>option\<close>;
  \<^item> a method takes the manager and returns its result together with the manager after
    the call; a \<^verbatim>\<open>void\<close> method returns the manager only; a thrown \<^verbatim>\<open>Error\<close> is \<open>Inl\<close> of
    its message;
  \<^item> \<^verbatim>\<open>new Date().toISOString()\<close> reads the head of the field \<open>clock\<close>, the stream of the
    readings the system clock is going to give, and advances it;
  \<^item> \<^verbatim>\<open>console.log\<close> and \<^verbatim>\<open>console.error\<close> (done only when \<^verbatim>\<open>debugMode\<close> is set) write
    no field of the manager and are left out;
  \<^item> \<^verbatim>\<open>retry_count\<close> only ever holds 0, 1, 2, ... and is a \<open>nat\<close>.
\<close>

subsection \<open>JavaScript values and strings\<close>

text \<open>
  What \<^verbatim>\<open>obj[key]\<close> reads on a plain object (an object literal, or any object whose
  prototype is \<^verbatim>\<open>Object.prototype\<close>): the own property of that name, or else the member of
  that name inherited from \<^verbatim>\<open>Object.prototype\<close>, or else \<^verbatim>\<open>undefined\<close> (\<open>None\<close>). The
  inherited members are functions, apart from \<^verbatim>\<open>__proto__\<close>, which reads as the prototype
  object itself; each of them is truthy.
\<close>

datatype 'a js_value = Value 'a | Object_prototype_member string

definition Object_prototype :: "string list" where
  "Object_prototype =
     [''constructor'', ''hasOwnProperty'', ''isPrototypeOf'', ''propertyIsEnumerable'',
      ''toLocaleString'', ''toString'', ''valueOf'', ''__proto__'',
      ''__defineGetter__'', ''__defineSetter__'', ''__lookupGetter__'', ''__lookupSetter__'']"

definition get_property :: "(string \<rightharpoonup> 'a) \<Rightarrow> string \<Rightarrow> 'a js_value option" where
  "get_property obj k =
     (case obj k of
        Some v \<Rightarrow> Some (Value v)
      | None \<Rightarrow> if k \<in> set Object_prototype then Some (Object_prototype_member k) else None)"

text \<open>Truthiness of what was read, where own values are strings: the empty string is falsy.\<close>

fun truthy :: "string js_value option \<Rightarrow> bool" where
  "truthy None = False"
| "truthy (Some (Value s)) = (s \<noteq> [])"
| "truthy (Some (Object_prototype_member k)) = True"

text \<open>\<^verbatim>\<open>x || d\<close> for an optional string \<open>x\<close>.\<close>

fun or_default :: "string option \<Rightarrow> string \<Rightarrow> string" where
  "or_default None d = d"
| "or_default (Some s) d = (if s = [] then d else s)"

text \<open>\<^verbatim>\<open>Array.prototype.join\<close> on an array of strings.\<close>

fun join :: "string \<Rightarrow> string list \<Rightarrow> string" where
  "join sep [] = []"
| "join sep [x] = x"
| "join sep (x # y # ys) = x @ sep @ join sep (y # ys)"

text \<open>
  \<^verbatim>\<open>String.prototype.toLowerCase\<close> is a built-in of the language and no part of the
  repository. It is not defined here: \<open>startBuilding\<close>, and every method that can reach it,
  takes it as the parameter \<open>toLowerCase\<close>, and what is proved holds for whatever function
  it is.
\<close>

text \<open>\<^verbatim>\<open>s.replace(/_/g, '_')\<close>: every underscore is replaced by an underscore.\<close>

definition replace_underscores :: "string \<Rightarrow> string" where
  "replace_underscores s = concat (map (\<lambda>c. if c = CHR ''_'' then ''_'' else [c]) s)"

text \<open>A number in a template literal: its decimal digits.\<close>

definition digit :: "nat \<Rightarrow> char" where
  "digit d = ''0123456789'' ! d"

fun string_of_nat :: "nat \<Rightarrow> string" where
  "string_of_nat n =
     (if n < 10 then [digit n] else string_of_nat (n div 10) @ [digit (n mod 10)])"

declare string_of_nat.simps [simp del]

subsection \<open>States and the transition table\<close>

datatype WorkflowGenerationState =
    STATE_0_IDLE
  | STATE_1_USER_PROMPT_RECEIVED
  | STATE_2_CLARIFICATION_ACTIVE
  | STATE_3_UNDERSTANDING_CONFIRMED
  | STATE_4_CREDENTIAL_COLLECTION
  | STATE_5_WORKFLOW_BUILDING
  | STATE_6_WORKFLOW_VALIDATION
  | STATE_7_WORKFLOW_READY
  | STATE_ERROR_HANDLING

text \<open>The string value of each enum member, as it appears in template literals.\<close>

fun state_string :: "WorkflowGenerationState \<Rightarrow> string" where
  "state_string STATE_0_IDLE = ''STATE_0_IDLE''"
| "state_string STATE_1_USER_PROMPT_RECEIVED = ''STATE_1_USER_PROMPT_RECEIVED''"
| "state_string STATE_2_CLARIFICATION_ACTIVE = ''STATE_2_CLARIFICATION_ACTIVE''"
| "state_string STATE_3_UNDERSTANDING_CONFIRMED = ''STATE_3_UNDERSTANDING_CONFIRMED''"
| "state_string STATE_4_CREDENTIAL_COLLECTION = ''STATE_4_CREDENTIAL_COLLECTION''"
| "state_string STATE_5_WORKFLOW_BUILDING = ''STATE_5_WORKFLOW_BUILDING''"
| "state_string STATE_6_WORKFLOW_VALIDATION = ''STATE_6_WORKFLOW_VALIDATION''"
| "state_string STATE_7_WORKFLOW_READY = ''STATE_7_WORKFLOW_READY''"
| "state_string STATE_ERROR_HANDLING = ''STATE_ERROR_HANDLING''"

fun ALLOWED_TRANSITIONS :: "WorkflowGenerationState \<Rightarrow> WorkflowGenerationState list" where
  "ALLOWED_TRANSITIONS STATE_0_IDLE = [STATE_1_USER_PROMPT_RECEIVED]"
| "ALLOWED_TRANSITIONS STATE_1_USER_PROMPT_RECEIVED = [STATE_2_CLARIFICATION_ACTIVE]"
| "ALLOWED_TRANSITIONS STATE_2_CLARIFICATION_ACTIVE =
     [STATE_3_UNDERSTANDING_CONFIRMED, STATE_2_CLARIFICATION_ACTIVE]"
| "ALLOWED_TRANSITIONS STATE_3_UNDERSTANDING_CONFIRMED =
     [STATE_4_CREDENTIAL_COLLECTION, STATE_2_CLARIFICATION_ACTIVE, STATE_5_WORKFLOW_BUILDING]"
| "ALLOWED_TRANSITIONS STATE_4_CREDENTIAL_COLLECTION = [STATE_5_WORKFLOW_BUILDING]"
| "ALLOWED_TRANSITIONS STATE_5_WORKFLOW_BUILDING =
     [STATE_6_WORKFLOW_VALIDATION, STATE_4_CREDENTIAL_COLLECTION]"
| "ALLOWED_TRANSITIONS STATE_6_WORKFLOW_VALIDATION =
     [STATE_7_WORKFLOW_READY, STATE_5_WORKFLOW_BUILDING, STATE_ERROR_HANDLING]"
| "ALLOWED_TRANSITIONS STATE_7_WORKFLOW_READY = []"
| "ALLOWED_TRANSITIONS STATE_ERROR_HANDLING = [STATE_2_CLARIFICATION_ACTIVE, STATE_0_IDLE]"

subsection \<open>The execution state\<close>

text \<open>A value of type \<^verbatim>\<open>any\<close>: the manager carries such values and never looks inside.\<close>

datatype any =
    JNull
  | JBoolean bool
  | JNumber int
  | JString string
  | JArray "any list"
  | JObject "(string \<times> any) list"

text \<open>
  Field names that are reserved words or library constants of Isabelle carry a prefix:
  \<open>question_id\<close>, \<open>question_text\<close> and \<open>blueprint_structure\<close> are the source's \<^verbatim>\<open>id\<close>, \<^verbatim>\<open>text\<close>
  and \<^verbatim>\<open>structure\<close>.
\<close>

record question =
  question_id :: string
  question_text :: string
  options :: "string list"

record workflow_blueprint =
  nodes :: "any list option"
  edges :: "any list option"
  blueprint_structure :: "any option"

record validation_error =
  type :: string
  message :: string
  nodeId :: "string option"

record history_entry =
  state :: WorkflowGenerationState
  timestamp :: string
  reason :: "string option"

text \<open>
  Each of the two \<^verbatim>\<open>Record<string, string>\<close> fields is a plain object and is given by its
  own properties; reading it goes through \<open>get_property\<close>.
\<close>

record ExecutionState =
  current_state :: WorkflowGenerationState
  user_prompt :: string
  clarifying_questions :: "question list"
  clarifying_answers :: "string \<rightharpoonup> string"
  final_understanding :: string
  credentials_required :: "string list"
  credentials_provided :: "string \<rightharpoonup> string"
  workflow_blueprint :: workflow_blueprint
  validation_errors :: "validation_error list"
  retry_count :: nat
  last_error :: "string option"
  debug_mode :: "bool option"
  state_history :: "history_entry list"

record WorkflowGenerationStateManager =
  executionState :: ExecutionState
  debugMode :: bool
  clock :: "string stream"

text \<open>The results \<^verbatim>\<open>{ valid, reason? }\<close> and \<^verbatim>\<open>{ success, error? }\<close>.\<close>

record validity =
  valid :: bool
  invalid_reason :: "string option"

record outcome =
  success :: bool
  error :: "string option"

subsection \<open>Construction, transition check and transition\<close>

definition initializeState :: "bool \<Rightarrow> string \<Rightarrow> ExecutionState" where
  "initializeState dbg now =
     \<lparr>current_state = STATE_0_IDLE,
      user_prompt = [],
      clarifying_questions = [],
      clarifying_answers = Map.empty,
      final_understanding = [],
      credentials_required = [],
      credentials_provided = Map.empty,
      workflow_blueprint = \<lparr>nodes = None, edges = None, blueprint_structure = None\<rparr>,
      validation_errors = [],
      retry_count = 0,
      last_error = None,
      debug_mode = Some dbg,
      state_history =
        [\<lparr>state = STATE_0_IDLE, timestamp = now, reason = Some ''Initialized''\<rparr>]\<rparr>"

text \<open>The constructor: \<^verbatim>\<open>new WorkflowGenerationStateManager(debugMode)\<close> under a given clock.\<close>

definition new_manager :: "bool \<Rightarrow> string stream \<Rightarrow> WorkflowGenerationStateManager" where
  "new_manager dbg clk =
     \<lparr>executionState = initializeState dbg (shd clk), debugMode = dbg, clock = stl clk\<rparr>"

definition getExecutionState :: "WorkflowGenerationStateManager \<Rightarrow> ExecutionState" where
  "getExecutionState m = executionState m"

definition canTransitionTo ::
  "WorkflowGenerationStateManager \<Rightarrow> WorkflowGenerationState \<Rightarrow> validity" where
  "canTransitionTo m newState =
     (let currentState = current_state (executionState m);
          allowedStates = ALLOWED_TRANSITIONS currentState
      in if newState \<in> set allowedStates
         then \<lparr>valid = True, invalid_reason = None\<rparr>
         else \<lparr>valid = False,
               invalid_reason = Some (''Invalid transition from '' @ state_string currentState
                 @ '' to '' @ state_string newState
                 @ ''. Allowed states: '' @ join '', '' (map state_string allowedStates))\<rparr>)"

definition transitionTo ::
  "WorkflowGenerationStateManager \<Rightarrow> WorkflowGenerationState \<Rightarrow> string option
   \<Rightarrow> outcome \<times> WorkflowGenerationStateManager" where
  "transitionTo m newState rsn =
     (let validation = canTransitionTo m newState
      in if \<not> valid validation
         then (\<lparr>success = False,
                error = Some (or_default (invalid_reason validation) ''Invalid state transition'')\<rparr>,
               m)
         else (\<lparr>success = True, error = None\<rparr>,
               m\<lparr>executionState := (executionState m)
                    \<lparr>state_history := state_history (executionState m)
                       @ [\<lparr>state = newState, timestamp = shd (clock m),
                           reason = Some (or_default rsn ''State transition'')\<rparr>],
                     current_state := newState\<rparr>,
                 clock := stl (clock m)\<rparr>))"

subsection \<open>The guarded operations\<close>

definition setUserPrompt ::
  "WorkflowGenerationStateManager \<Rightarrow> string \<Rightarrow> string + WorkflowGenerationStateManager" where
  "setUserPrompt m prompt =
     (if current_state (executionState m) \<noteq> STATE_0_IDLE
      then Inl ''Can only set user prompt from IDLE state''
      else Inr (snd (transitionTo
                  (m\<lparr>executionState := (executionState m)\<lparr>user_prompt := prompt\<rparr>\<rparr>)
                  STATE_1_USER_PROMPT_RECEIVED (Some ''User prompt received''))))"

definition setClarifyingQuestions ::
  "WorkflowGenerationStateManager \<Rightarrow> question list \<Rightarrow> WorkflowGenerationStateManager" where
  "setClarifyingQuestions m questions =
     (let m1 = m\<lparr>executionState := (executionState m)\<lparr>clarifying_questions := questions\<rparr>\<rparr>
      in if current_state (executionState m1) = STATE_1_USER_PROMPT_RECEIVED
         then snd (transitionTo m1 STATE_2_CLARIFICATION_ACTIVE
                     (Some ''Clarifying questions generated''))
         else m1)"

definition setClarifyingAnswers ::
  "WorkflowGenerationStateManager \<Rightarrow> (string \<rightharpoonup> string) \<Rightarrow> WorkflowGenerationStateManager" where
  "setClarifyingAnswers m answers =
     m\<lparr>executionState := (executionState m)\<lparr>clarifying_answers := answers\<rparr>\<rparr>"

definition confirmUnderstanding ::
  "WorkflowGenerationStateManager \<Rightarrow> string \<Rightarrow> outcome \<times> WorkflowGenerationStateManager" where
  "confirmUnderstanding m finalUnderstanding =
     (if current_state (executionState m) \<noteq> STATE_2_CLARIFICATION_ACTIVE
      then (\<lparr>success = False,
             error = Some ''Can only confirm understanding from CLARIFICATION_ACTIVE state''\<rparr>, m)
      else transitionTo
             (m\<lparr>executionState := (executionState m)\<lparr>final_understanding := finalUnderstanding\<rparr>\<rparr>)
             STATE_3_UNDERSTANDING_CONFIRMED (Some ''Understanding confirmed by user''))"

definition setRequiredCredentials ::
  "WorkflowGenerationStateManager \<Rightarrow> string list \<Rightarrow> WorkflowGenerationStateManager" where
  "setRequiredCredentials m credentials =
     (let m1 = m\<lparr>executionState := (executionState m)\<lparr>credentials_required := credentials\<rparr>\<rparr>
      in if current_state (executionState m1) = STATE_3_UNDERSTANDING_CONFIRMED
         then snd (transitionTo m1 STATE_4_CREDENTIAL_COLLECTION
                     (Some ''Credentials required identified''))
         else if current_state (executionState m1) = STATE_5_WORKFLOW_BUILDING
         then snd (transitionTo m1 STATE_4_CREDENTIAL_COLLECTION
                     (Some ''Credentials required detected during building''))
         else m1)"

definition setProvidedCredentials ::
  "WorkflowGenerationStateManager \<Rightarrow> (string \<rightharpoonup> string) \<Rightarrow> WorkflowGenerationStateManager" where
  "setProvidedCredentials m credentials =
     m\<lparr>executionState := (executionState m)\<lparr>credentials_provided := credentials\<rparr>\<rparr>"

text \<open>The local \<^verbatim>\<open>missingCredentials\<close> of \<^verbatim>\<open>startBuilding\<close>.\<close>

definition missingCredentials :: "(string \<Rightarrow> string) \<Rightarrow> ExecutionState \<Rightarrow> string list" where
  "missingCredentials toLowerCase es =
     filter (\<lambda>cred.
        \<not> truthy (get_property (credentials_provided es) cred) \<and>
        \<not> truthy (get_property (credentials_provided es) (replace_underscores (toLowerCase cred))))
       (credentials_required es)"

definition startBuilding ::
  "(string \<Rightarrow> string) \<Rightarrow> WorkflowGenerationStateManager \<Rightarrow> outcome \<times> WorkflowGenerationStateManager" where
  "startBuilding toLowerCase m =
     (if length (credentials_required (executionState m)) > 0 \<and>
         length (missingCredentials toLowerCase (executionState m)) > 0
      then (\<lparr>success = False,
             error = Some (''Cannot build workflow: Missing required credentials: ''
                       @ join '', '' (missingCredentials toLowerCase (executionState m)))\<rparr>, m)
      else if final_understanding (executionState m) = []
      then (\<lparr>success = False,
             error = Some ''Cannot build workflow: Understanding not confirmed''\<rparr>, m)
      else transitionTo m STATE_5_WORKFLOW_BUILDING (Some ''Workflow building started''))"

definition setWorkflowBlueprint ::
  "WorkflowGenerationStateManager \<Rightarrow> workflow_blueprint \<Rightarrow> WorkflowGenerationStateManager" where
  "setWorkflowBlueprint m blueprint =
     snd (transitionTo
            (m\<lparr>executionState := (executionState m)\<lparr>workflow_blueprint := blueprint\<rparr>\<rparr>)
            STATE_6_WORKFLOW_VALIDATION (Some ''Workflow blueprint generated''))"

definition addValidationError ::
  "WorkflowGenerationStateManager \<Rightarrow> validation_error \<Rightarrow> WorkflowGenerationStateManager" where
  "addValidationError m e =
     m\<lparr>executionState := (executionState m)
          \<lparr>validation_errors := validation_errors (executionState m) @ [e]\<rparr>\<rparr>"

definition clearValidationErrors ::
  "WorkflowGenerationStateManager \<Rightarrow> WorkflowGenerationStateManager" where
  "clearValidationErrors m =
     m\<lparr>executionState := (executionState m)\<lparr>validation_errors := []\<rparr>\<rparr>"

definition retryBuilding ::
  "WorkflowGenerationStateManager \<Rightarrow> outcome \<times> WorkflowGenerationStateManager" where
  "retryBuilding m =
     (if retry_count (executionState m) \<ge> 3
      then (\<lparr>success = False,
             error = Some ''Maximum retry count (3) reached. Moving to error handling.''\<rparr>, m)
      else
        (let m1 = m\<lparr>executionState := (executionState m)
                      \<lparr>retry_count := retry_count (executionState m) + 1\<rparr>\<rparr>;
             m2 = m1\<lparr>executionState := (executionState m1)
                      \<lparr>workflow_blueprint :=
                         \<lparr>nodes = None, edges = None, blueprint_structure = None\<rparr>\<rparr>\<rparr>;
             m3 = clearValidationErrors m2
         in transitionTo m3 STATE_5_WORKFLOW_BUILDING
              (Some (''Retry '' @ string_of_nat (retry_count (executionState m3)) @ ''/3''))))"

definition markWorkflowReady ::
  "WorkflowGenerationStateManager \<Rightarrow> outcome \<times> WorkflowGenerationStateManager" where
  "markWorkflowReady m =
     (if length (validation_errors (executionState m)) > 0
      then (\<lparr>success = False,
             error = Some (''Cannot mark workflow as ready: ''
                       @ string_of_nat (length (validation_errors (executionState m)))
                       @ '' validation errors remain'')\<rparr>, m)
      else if (case nodes (workflow_blueprint (executionState m)) of
                 None \<Rightarrow> True
               | Some ns \<Rightarrow> length ns = 0)
      then (\<lparr>success = False,
             error = Some ''Cannot mark workflow as ready: No workflow blueprint''\<rparr>, m)
      else transitionTo m STATE_7_WORKFLOW_READY (Some ''Workflow validated and ready''))"

definition handleError ::
  "WorkflowGenerationStateManager \<Rightarrow> string \<Rightarrow> WorkflowGenerationStateManager" where
  "handleError m err =
     snd (transitionTo
            (m\<lparr>executionState := (executionState m)\<lparr>last_error := Some err\<rparr>\<rparr>)
            STATE_ERROR_HANDLING (Some (''Error: '' @ err)))"

definition reset :: "WorkflowGenerationStateManager \<Rightarrow> WorkflowGenerationStateManager" where
  "reset m =
     m\<lparr>executionState := initializeState (debugMode m) (shd (clock m)),
       clock := stl (clock m)\<rparr>"

definition getStateHistory :: "WorkflowGenerationStateManager \<Rightarrow> history_entry list" where
  "getStateHistory m = state_history (executionState m)"

definition isTerminalState :: "WorkflowGenerationStateManager \<Rightarrow> bool" where
  "isTerminalState m =
     (current_state (executionState m) = STATE_7_WORKFLOW_READY \<or>
      current_state (executionState m) = STATE_ERROR_HANDLING)"

definition getCurrentState :: "WorkflowGenerationStateManager \<Rightarrow> WorkflowGenerationState" where
  "getCurrentState m = current_state (executionState m)"

subsection \<open>The orchestration helpers\<close>

text \<open>
  \<^verbatim>\<open>ensureStateForBuilding\<close> is a sequence of numbered steps with early returns; the
  remainder of the method after step 2 and after step 3 is a definition of its own.
\<close>

definition ensureStateForBuilding_from_step_4 ::
  "(string \<Rightarrow> string) \<Rightarrow> WorkflowGenerationStateManager \<Rightarrow> outcome \<times> WorkflowGenerationStateManager" where
  "ensureStateForBuilding_from_step_4 toLowerCase m =
     (if current_state (executionState m) = STATE_4_CREDENTIAL_COLLECTION
      then startBuilding toLowerCase m
      else if current_state (executionState m) = STATE_5_WORKFLOW_BUILDING \<or>
              current_state (executionState m) = STATE_6_WORKFLOW_VALIDATION \<or>
              current_state (executionState m) = STATE_7_WORKFLOW_READY
      then (\<lparr>success = True, error = None\<rparr>, m)
      else (\<lparr>success = False,
             error = Some (''Invalid state for building: ''
                       @ state_string (current_state (executionState m)))\<rparr>, m))"

definition ensureStateForBuilding_from_step_3 ::
  "(string \<Rightarrow> string) \<Rightarrow> WorkflowGenerationStateManager \<Rightarrow> outcome \<times> WorkflowGenerationStateManager" where
  "ensureStateForBuilding_from_step_3 toLowerCase m =
     (let newState = current_state (executionState m)
      in if newState = STATE_3_UNDERSTANDING_CONFIRMED
         then (if length (credentials_required (executionState m)) > 0
               then (let (transitionResult, m1) =
                           transitionTo m STATE_4_CREDENTIAL_COLLECTION
                             (Some ''Moving to credential collection'')
                     in if \<not> success transitionResult then (transitionResult, m1)
                        else ensureStateForBuilding_from_step_4 toLowerCase m1)
               else startBuilding toLowerCase m)
         else ensureStateForBuilding_from_step_4 toLowerCase m)"

definition ensureStateForBuilding ::
  "(string \<Rightarrow> string) \<Rightarrow> WorkflowGenerationStateManager \<Rightarrow> outcome \<times> WorkflowGenerationStateManager" where
  "ensureStateForBuilding toLowerCase m =
     (let currentState = current_state (executionState m)
      in if currentState = STATE_0_IDLE \<or> currentState = STATE_1_USER_PROMPT_RECEIVED
         then (\<lparr>success = False,
                error = Some ''Cannot build: Understanding not confirmed''\<rparr>, m)
         else if currentState = STATE_2_CLARIFICATION_ACTIVE
         then (if final_understanding (executionState m) = []
               then (\<lparr>success = False,
                      error = Some ''Cannot build: Final understanding not set''\<rparr>, m)
               else (let (transitionResult, m1) =
                           confirmUnderstanding m (final_understanding (executionState m))
                     in if \<not> success transitionResult then (transitionResult, m1)
                        else ensureStateForBuilding_from_step_3 toLowerCase m1))
         else ensureStateForBuilding_from_step_3 toLowerCase m)"

definition moveToValidation ::
  "(string \<Rightarrow> string) \<Rightarrow> WorkflowGenerationStateManager
   \<Rightarrow> workflow_blueprint
   \<Rightarrow> outcome \<times> WorkflowGenerationStateManager" where
  "moveToValidation toLowerCase m blueprint =
     (let (buildResult, m1) =
            (if current_state (executionState m) \<noteq> STATE_5_WORKFLOW_BUILDING
             then ensureStateForBuilding toLowerCase m
             else (\<lparr>success = True, error = None\<rparr>, m))
      in if \<not> success buildResult then (buildResult, m1)
         else transitionTo
                (m1\<lparr>executionState := (executionState m1)\<lparr>workflow_blueprint := blueprint\<rparr>\<rparr>)
                STATE_6_WORKFLOW_VALIDATION (Some ''Workflow blueprint generated''))"

definition moveToReady ::
  "(string \<Rightarrow> string) \<Rightarrow> WorkflowGenerationStateManager \<Rightarrow> outcome \<times> WorkflowGenerationStateManager" where
  "moveToReady toLowerCase m =
     (let currentState = current_state (executionState m)
      in if currentState = STATE_6_WORKFLOW_VALIDATION then markWorkflowReady m
         else if currentState = STATE_5_WORKFLOW_BUILDING
         then (let (valResult, m1) =
                     moveToValidation toLowerCase m (workflow_blueprint (executionState m))
               in if \<not> success valResult then (valResult, m1)
                  else markWorkflowReady m1)
         else (\<lparr>success = False,
                error = Some (''Cannot mark ready from state: '' @ state_string currentState)\<rparr>,
               m))"

subsection \<open>Wizard steps\<close>

text \<open>
  \<^verbatim>\<open>stepMap\<close> is an object literal read at an arbitrary string; \<^verbatim>\<open>stateMap\<close> is a
  \<^verbatim>\<open>Record\<close> with one own property for each of the nine enum members and is read at enum
  members only. The value \<^verbatim>\<open>mapWizardStepToState\<close> returns is whatever
  \<^verbatim>\<open>stepMap[step] || STATE_0_IDLE\<close> evaluates to.
\<close>

definition stepMap :: "(string \<times> WorkflowGenerationState) list" where
  "stepMap =
     [(''idle'', STATE_0_IDLE),
      (''analyzing'', STATE_1_USER_PROMPT_RECEIVED),
      (''questioning'', STATE_2_CLARIFICATION_ACTIVE),
      (''refining'', STATE_2_CLARIFICATION_ACTIVE),
      (''confirmation'', STATE_3_UNDERSTANDING_CONFIRMED),
      (''credentials'', STATE_4_CREDENTIAL_COLLECTION),
      (''building'', STATE_5_WORKFLOW_BUILDING),
      (''complete'', STATE_7_WORKFLOW_READY)]"

definition mapWizardStepToState :: "string \<Rightarrow> WorkflowGenerationState js_value" where
  "mapWizardStepToState step =
     (case get_property (map_of stepMap) step of
        Some v \<Rightarrow> v
      | None \<Rightarrow> Value STATE_0_IDLE)"

fun stateMap :: "WorkflowGenerationState \<Rightarrow> string" where
  "stateMap STATE_0_IDLE = ''idle''"
| "stateMap STATE_1_USER_PROMPT_RECEIVED = ''analyzing''"
| "stateMap STATE_2_CLARIFICATION_ACTIVE = ''questioning''"
| "stateMap STATE_3_UNDERSTANDING_CONFIRMED = ''confirmation''"
| "stateMap STATE_4_CREDENTIAL_COLLECTION = ''credentials''"
| "stateMap STATE_5_WORKFLOW_BUILDING = ''building''"
| "stateMap STATE_6_WORKFLOW_VALIDATION = ''building''"
| "stateMap STATE_7_WORKFLOW_READY = ''complete''"
| "stateMap STATE_ERROR_HANDLING = ''idle''"

definition mapStateToWizardStep :: "WorkflowGenerationState \<Rightarrow> string" where
  "mapStateToWizardStep st = or_default (Some (stateMap st)) ''idle''"

subsection \<open>Callers\<close>

text \<open>
  A caller drives a manager by a sequence of method calls. \<open>call\<close> names every method
  that can write the manager, with its arguments; \<open>perform\<close> makes the call and keeps the
  manager. A call of \<open>setUserPrompt\<close> that throws leaves the manager as it was. The first
  argument of \<open>perform\<close> is the built-in \<open>toLowerCase\<close>, handed on to the methods that
  take it.
\<close>

datatype call =
    Call_transitionTo WorkflowGenerationState "string option"
  | Call_setUserPrompt string
  | Call_setClarifyingQuestions "question list"
  | Call_setClarifyingAnswers "string \<rightharpoonup> string"
  | Call_confirmUnderstanding string
  | Call_setRequiredCredentials "string list"
  | Call_setProvidedCredentials "string \<rightharpoonup> string"
  | Call_startBuilding
  | Call_setWorkflowBlueprint workflow_blueprint
  | Call_addValidationError validation_error
  | Call_clearValidationErrors
  | Call_retryBuilding
  | Call_markWorkflowReady
  | Call_handleError string
  | Call_reset
  | Call_ensureStateForBuilding
  | Call_moveToValidation workflow_blueprint
  | Call_moveToReady

fun perform ::
  "(string \<Rightarrow> string) \<Rightarrow> WorkflowGenerationStateManager \<Rightarrow> call
   \<Rightarrow> WorkflowGenerationStateManager" where
  "perform toLowerCase m (Call_transitionTo s r) = snd (transitionTo m s r)"
| "perform toLowerCase m (Call_setUserPrompt p) = (case setUserPrompt m p of Inl e \<Rightarrow> m | Inr m' \<Rightarrow> m')"
| "perform toLowerCase m (Call_setClarifyingQuestions qs) = setClarifyingQuestions m qs"
| "perform toLowerCase m (Call_setClarifyingAnswers a) = setClarifyingAnswers m a"
| "perform toLowerCase m (Call_confirmUnderstanding u) = snd (confirmUnderstanding m u)"
| "perform toLowerCase m (Call_setRequiredCredentials cs) = setRequiredCredentials m cs"
| "perform toLowerCase m (Call_setProvidedCredentials cs) = setProvidedCredentials m cs"
| "perform toLowerCase m Call_startBuilding = snd (startBuilding toLowerCase m)"
| "perform toLowerCase m (Call_setWorkflowBlueprint b) = setWorkflowBlueprint m b"
| "perform toLowerCase m (Call_addValidationError e) = addValidationError m e"
| "perform toLowerCase m Call_clearValidationErrors = clearValidationErrors m"
| "perform toLowerCase m Call_retryBuilding = snd (retryBuilding m)"
| "perform toLowerCase m Call_markWorkflowReady = snd (markWorkflowReady m)"
| "perform toLowerCase m (Call_handleError e) = handleError m e"
| "perform toLowerCase m Call_reset = reset m"
| "perform toLowerCase m Call_ensureStateForBuilding = snd (ensureStateForBuilding toLowerCase m)"
| "perform toLowerCase m (Call_moveToValidation b) = snd (moveToValidation toLowerCase m b)"
| "perform toLowerCase m Call_moveToReady = snd (moveToReady toLowerCase m)"

text \<open>The history is not empty and its first entry is the idle state.\<close>

definition starts_idle :: "WorkflowGenerationStateManager \<Rightarrow> bool" where
  "starts_idle m =
     (case state_history (executionState m) of
        [] \<Rightarrow> False
      | e # es \<Rightarrow> state e = STATE_0_IDLE)"

text \<open>
  One retry followed by the next blueprint: \<open>retryBuilding\<close>, then
  \<open>setWorkflowBlueprint\<close> with the blueprint of the new build.
\<close>

definition retry_cycle ::
  "WorkflowGenerationStateManager \<Rightarrow> workflow_blueprint \<Rightarrow> WorkflowGenerationStateManager" where
  "retry_cycle m blueprint = setWorkflowBlueprint (snd (retryBuilding m)) blueprint"

subsection \<open>The transition set as the specification words it\<close>

text \<open>
  The specification describes the legal transitions as the linear pipeline order, three
  deviations (the self-loop on clarification, the shortcut from confirmation to building,
  the backward edge from building to credential collection) and the two exits of error
  handling. \<open>claimed_transitions\<close> is that description, written independently of
  \<open>ALLOWED_TRANSITIONS\<close>.
\<close>

fun adjacent_pairs :: "'a list \<Rightarrow> ('a \<times> 'a) list" where
  "adjacent_pairs (x # y # ys) = (x, y) # adjacent_pairs (y # ys)"
| "adjacent_pairs ys = []"

definition pipeline_order :: "WorkflowGenerationState list" where
  "pipeline_order =
     [STATE_0_IDLE, STATE_1_USER_PROMPT_RECEIVED, STATE_2_CLARIFICATION_ACTIVE,
      STATE_3_UNDERSTANDING_CONFIRMED, STATE_4_CREDENTIAL_COLLECTION,
      STATE_5_WORKFLOW_BUILDING, STATE_6_WORKFLOW_VALIDATION, STATE_7_WORKFLOW_READY]"

definition claimed_transitions ::
  "(WorkflowGenerationState \<times> WorkflowGenerationState) list" where
  "claimed_transitions =
     adjacent_pairs pipeline_order
     @ [(STATE_2_CLARIFICATION_ACTIVE, STATE_2_CLARIFICATION_ACTIVE),
        (STATE_3_UNDERSTANDING_CONFIRMED, STATE_5_WORKFLOW_BUILDING),
        (STATE_5_WORKFLOW_BUILDING, STATE_4_CREDENTIAL_COLLECTION)]
     @ [(STATE_ERROR_HANDLING, STATE_2_CLARIFICATION_ACTIVE),
        (STATE_ERROR_HANDLING, STATE_0_IDLE)]"

subsection \<open>Concrete managers\<close>

text \<open>
  Managers for the concrete instances below: a fresh manager under a clock that always
  gives the same reading, driven along a path of states by the public \<open>transitionTo\<close>,
  or by the operations themselves.
\<close>

text \<open>
  The concrete instances use names made of ASCII characters only. On such names
  \<^verbatim>\<open>String.prototype.toLowerCase\<close> turns the letters \<^verbatim>\<open>A\<close> to \<^verbatim>\<open>Z\<close> into \<^verbatim>\<open>a\<close> to \<^verbatim>\<open>z\<close> and
  keeps every other character, which is what \<open>ascii_toLowerCase\<close> does; it stands for the
  built-in in the instances and nowhere else.
\<close>

definition ascii_toLowerCase_char :: "char \<Rightarrow> char" where
  "ascii_toLowerCase_char c =
     (case map_of (zip ''ABCDEFGHIJKLMNOPQRSTUVWXYZ'' ''abcdefghijklmnopqrstuvwxyz'') c of
        Some l \<Rightarrow> l
      | None \<Rightarrow> c)"

definition ascii_toLowerCase :: "string \<Rightarrow> string" where
  "ascii_toLowerCase s = map ascii_toLowerCase_char s"

definition fixed_clock :: "string stream" where
  "fixed_clock = sconst ''2024-01-01T00:00:00.000Z''"

definition fresh :: WorkflowGenerationStateManager where
  "fresh = new_manager False fixed_clock"

definition reach :: "WorkflowGenerationState list \<Rightarrow> WorkflowGenerationStateManager" where
  "reach path = fold (\<lambda>s m. snd (transitionTo m s None)) path fresh"

definition building_path :: "WorkflowGenerationState list" where
  "building_path =
     [STATE_1_USER_PROMPT_RECEIVED, STATE_2_CLARIFICATION_ACTIVE,
      STATE_3_UNDERSTANDING_CONFIRMED, STATE_5_WORKFLOW_BUILDING]"

definition validation_path :: "WorkflowGenerationState list" where
  "validation_path = building_path @ [STATE_6_WORKFLOW_VALIDATION]"

definition sample_blueprint :: workflow_blueprint where
  "sample_blueprint =
     \<lparr>nodes = Some [JString ''trigger''], edges = Some [], blueprint_structure = None\<rparr>"

definition validated :: WorkflowGenerationStateManager where
  "validated = setWorkflowBlueprint (reach building_path) sample_blueprint"

definition sample_error :: validation_error where
  "sample_error = \<lparr>type = ''schema'', message = ''node has no type'', nodeId = None\<rparr>"

definition awaiting_credentials ::
  "string list \<Rightarrow> (string \<rightharpoonup> string) \<Rightarrow> WorkflowGenerationStateManager" where
  "awaiting_credentials required provided =
     setProvidedCredentials
       (setRequiredCredentials
          (snd (confirmUnderstanding
                  (reach [STATE_1_USER_PROMPT_RECEIVED, STATE_2_CLARIFICATION_ACTIVE])
                  ''Post new rows to a channel''))
          required)
       provided"

definition first_answers :: "string \<rightharpoonup> string" where
  "first_answers = [''q1'' \<mapsto> ''every morning'']"

definition second_answers :: "string \<rightharpoonup> string" where
  "second_answers = [''q2'' \<mapsto> ''by email'']"

section \<open>Properties\<close>

subsection \<open>Evaluating the concrete managers\<close>

lemmas manager_defs =
  fresh_def new_manager_def initializeState_def fixed_clock_def reach_def building_path_def
  validation_path_def sample_blueprint_def validated_def sample_error_def
  awaiting_credentials_def

lemmas operation_defs =
  transitionTo_def canTransitionTo_def setUserPrompt_def setClarifyingQuestions_def
  setClarifyingAnswers_def confirmUnderstanding_def setRequiredCredentials_def
  setProvidedCredentials_def startBuilding_def setWorkflowBlueprint_def
  addValidationError_def clearValidationErrors_def retryBuilding_def markWorkflowReady_def
  handleError_def reset_def

lemma fresh_eval:
  "current_state (executionState fresh) = STATE_0_IDLE"
  "retry_count (executionState fresh) = 0"
  by (simp_all add: manager_defs)

lemma reach_validation_path_eval:
  "current_state (executionState (reach validation_path)) = STATE_6_WORKFLOW_VALIDATION"
  "retry_count (executionState (reach validation_path)) = 0"
  "validation_errors (executionState (reach validation_path)) = []"
  "nodes (workflow_blueprint (executionState (reach validation_path))) = None"
  by (simp_all add: manager_defs operation_defs)

lemma validated_eval:
  "current_state (executionState validated) = STATE_6_WORKFLOW_VALIDATION"
  "validation_errors (executionState validated) = []"
  "nodes (workflow_blueprint (executionState validated)) = Some [JString ''trigger'']"
  by (simp_all add: manager_defs operation_defs)

lemma awaiting_credentials_eval:
  "current_state (executionState (awaiting_credentials required provided))
     = STATE_4_CREDENTIAL_COLLECTION"
  "final_understanding (executionState (awaiting_credentials required provided))
     = ''Post new rows to a channel''"
  "credentials_required (executionState (awaiting_credentials required provided)) = required"
  "credentials_provided (executionState (awaiting_credentials required provided)) = provided"
  by (simp_all add: manager_defs operation_defs)

subsection \<open>Strings\<close>

lemma replace_underscores_id: "replace_underscores s = s"
  by (induction s) (simp_all add: replace_underscores_def)

lemma digit_mem: "d < 10 \<Longrightarrow> digit d \<in> set ''0123456789''"
  unfolding digit_def by (rule nth_mem) simp

lemma string_of_nat_small: "n < 10 \<Longrightarrow> string_of_nat n = [digit n]"
  by (subst string_of_nat.simps) simp

lemma string_of_nat_hd:
  "\<exists>d ds. string_of_nat n = d # ds \<and> d \<in> set ''0123456789''"
proof (induction n rule: string_of_nat.induct)
  case (1 n)
  show ?case
  proof (cases "n < 10")
    case True
    then show ?thesis
      using digit_mem [of n] by (subst string_of_nat.simps) simp
  next
    case False
    with 1 obtain d ds where "string_of_nat (n div 10) = d # ds" "d \<in> set ''0123456789''"
      by blast
    with False show ?thesis
      by (subst string_of_nat.simps) simp
  qed
qed

lemma validation_message_distinct:
  "''Cannot mark workflow as ready: '' @ string_of_nat n @ '' validation errors remain''
     \<noteq> ''Cannot mark workflow as ready: No workflow blueprint''"
proof -
  obtain d ds where "string_of_nat n = d # ds" "d \<in> set ''0123456789''"
    using string_of_nat_hd by blast
  then show ?thesis by auto
qed

subsection \<open>The two outcomes of a transition\<close>

lemma transitionTo_allowed:
  "T \<in> set (ALLOWED_TRANSITIONS (current_state (executionState m))) \<Longrightarrow>
   transitionTo m T r =
     (\<lparr>success = True, error = None\<rparr>,
      m\<lparr>executionState := (executionState m)
           \<lparr>state_history := state_history (executionState m)
              @ [\<lparr>state = T, timestamp = shd (clock m),
                  reason = Some (or_default r ''State transition'')\<rparr>],
            current_state := T\<rparr>,
        clock := stl (clock m)\<rparr>)"
  by (simp add: transitionTo_def canTransitionTo_def)

lemma transitionTo_rejected:
  "T \<notin> set (ALLOWED_TRANSITIONS (current_state (executionState m))) \<Longrightarrow>
   transitionTo m T r =
     (\<lparr>success = False,
       error = Some (''Invalid transition from ''
                 @ state_string (current_state (executionState m))
                 @ '' to '' @ state_string T
                 @ ''. Allowed states: ''
                 @ join '', '' (map state_string
                     (ALLOWED_TRANSITIONS (current_state (executionState m)))))\<rparr>,
      m)"
  by (simp add: transitionTo_def canTransitionTo_def Let_def)

lemma building_allowed_from:
  "STATE_5_WORKFLOW_BUILDING \<in> set (ALLOWED_TRANSITIONS S) \<longleftrightarrow>
     S \<in> {STATE_3_UNDERSTANDING_CONFIRMED, STATE_4_CREDENTIAL_COLLECTION,
           STATE_6_WORKFLOW_VALIDATION}"
  by (cases S) simp_all

lemma error_handling_allowed_from:
  "STATE_ERROR_HANDLING \<in> set (ALLOWED_TRANSITIONS S) \<longleftrightarrow> S = STATE_6_WORKFLOW_VALIDATION"
  by (cases S) simp_all

subsection \<open>The first history entry under every call\<close>

lemma starts_idle_update:
  "state_history es = state_history (executionState m) \<Longrightarrow>
   starts_idle (m\<lparr>executionState := es\<rparr>) = starts_idle m"
  by (simp add: starts_idle_def)

lemma starts_idle_new: "starts_idle (new_manager d c)"
  by (simp add: starts_idle_def new_manager_def initializeState_def)

lemma starts_idle_reset: "starts_idle (reset m)"
  by (simp add: starts_idle_def reset_def initializeState_def)

lemma starts_idle_transitionTo:
  "starts_idle m \<Longrightarrow> starts_idle (snd (transitionTo m T r))"
  by (cases "T \<in> set (ALLOWED_TRANSITIONS (current_state (executionState m)))")
     (auto simp: transitionTo_allowed transitionTo_rejected starts_idle_def split: list.splits)

lemma starts_idle_setUserPrompt:
  "starts_idle m \<Longrightarrow> setUserPrompt m p = Inr m' \<Longrightarrow> starts_idle m'"
  by (auto simp: setUserPrompt_def starts_idle_update split: if_splits
      intro!: starts_idle_transitionTo)

lemma starts_idle_setClarifyingQuestions:
  "starts_idle m \<Longrightarrow> starts_idle (setClarifyingQuestions m qs)"
  by (auto simp: setClarifyingQuestions_def starts_idle_update Let_def
      intro!: starts_idle_transitionTo)

lemma starts_idle_setRequiredCredentials:
  "starts_idle m \<Longrightarrow> starts_idle (setRequiredCredentials m cs)"
  by (auto simp: setRequiredCredentials_def starts_idle_update Let_def
      intro!: starts_idle_transitionTo)

lemma starts_idle_confirmUnderstanding:
  "starts_idle m \<Longrightarrow> starts_idle (snd (confirmUnderstanding m u))"
  by (auto simp: confirmUnderstanding_def starts_idle_update intro!: starts_idle_transitionTo)

lemma starts_idle_startBuilding:
  "starts_idle m \<Longrightarrow> starts_idle (snd (startBuilding toLowerCase m))"
  by (simp add: startBuilding_def starts_idle_transitionTo)

lemma starts_idle_setWorkflowBlueprint:
  "starts_idle m \<Longrightarrow> starts_idle (setWorkflowBlueprint m b)"
  by (auto simp: setWorkflowBlueprint_def starts_idle_update intro!: starts_idle_transitionTo)

lemma starts_idle_retryBuilding:
  "starts_idle m \<Longrightarrow> starts_idle (snd (retryBuilding m))"
  by (auto simp: retryBuilding_def clearValidationErrors_def Let_def starts_idle_update
      intro!: starts_idle_transitionTo)

lemma starts_idle_markWorkflowReady:
  "starts_idle m \<Longrightarrow> starts_idle (snd (markWorkflowReady m))"
  by (simp add: markWorkflowReady_def starts_idle_transitionTo)

lemma starts_idle_handleError:
  "starts_idle m \<Longrightarrow> starts_idle (handleError m e)"
  by (auto simp: handleError_def starts_idle_update intro!: starts_idle_transitionTo)

lemma starts_idle_from_step_4:
  "starts_idle m \<Longrightarrow> starts_idle (snd (ensureStateForBuilding_from_step_4 toLowerCase m))"
  by (simp add: ensureStateForBuilding_from_step_4_def starts_idle_startBuilding)

lemma starts_idle_from_step_3:
  assumes "starts_idle m"
  shows "starts_idle (snd (ensureStateForBuilding_from_step_3 toLowerCase m))"
proof -
  let ?t = "transitionTo m STATE_4_CREDENTIAL_COLLECTION
              (Some ''Moving to credential collection'')"
  have moved: "starts_idle (snd ?t)"
    using assms by (rule starts_idle_transitionTo)
  then have "starts_idle (snd (ensureStateForBuilding_from_step_4 toLowerCase (snd ?t)))"
    by (rule starts_idle_from_step_4)
  with assms moved show ?thesis
    by (simp add: ensureStateForBuilding_from_step_3_def Let_def starts_idle_startBuilding
        starts_idle_from_step_4 case_prod_beta)
qed

lemma starts_idle_ensureStateForBuilding:
  assumes "starts_idle m"
  shows "starts_idle (snd (ensureStateForBuilding toLowerCase m))"
proof -
  let ?c = "confirmUnderstanding m (final_understanding (executionState m))"
  have confirmed: "starts_idle (snd ?c)"
    using assms by (rule starts_idle_confirmUnderstanding)
  then have "starts_idle (snd (ensureStateForBuilding_from_step_3 toLowerCase (snd ?c)))"
    by (rule starts_idle_from_step_3)
  with assms confirmed show ?thesis
    by (simp add: ensureStateForBuilding_def Let_def starts_idle_from_step_3 case_prod_beta)
qed

lemma starts_idle_moveToValidation:
  assumes "starts_idle m"
  shows "starts_idle (snd (moveToValidation toLowerCase m b))"
proof -
  have ensured: "starts_idle (snd (ensureStateForBuilding toLowerCase m))"
    using assms by (rule starts_idle_ensureStateForBuilding)
  have written: "starts_idle (snd (transitionTo
      (m'\<lparr>executionState := (executionState m')\<lparr>workflow_blueprint := b\<rparr>\<rparr>)
      STATE_6_WORKFLOW_VALIDATION (Some ''Workflow blueprint generated'')))"
    if "starts_idle m'" for m'
    using that by (auto simp: starts_idle_update intro!: starts_idle_transitionTo)
  show ?thesis
    using assms ensured written [OF assms] written [OF ensured]
    by (simp add: moveToValidation_def case_prod_beta)
qed

lemma starts_idle_moveToReady:
  assumes "starts_idle m"
  shows "starts_idle (snd (moveToReady toLowerCase m))"
proof -
  let ?v = "moveToValidation toLowerCase m (workflow_blueprint (executionState m))"
  have moved: "starts_idle (snd ?v)"
    using assms by (rule starts_idle_moveToValidation)
  then have "starts_idle (snd (markWorkflowReady (snd ?v)))"
    by (rule starts_idle_markWorkflowReady)
  with assms moved show ?thesis
    by (simp add: moveToReady_def Let_def starts_idle_markWorkflowReady case_prod_beta)
qed

lemma starts_idle_perform: "starts_idle m \<Longrightarrow> starts_idle (perform toLowerCase m c)"
proof (cases c)
  case (Call_setUserPrompt p)
  assume "starts_idle m"
  then show ?thesis
    using Call_setUserPrompt by (auto split: sum.splits dest: starts_idle_setUserPrompt)
qed (simp_all add: starts_idle_transitionTo starts_idle_setClarifyingQuestions
    starts_idle_confirmUnderstanding starts_idle_setRequiredCredentials
    starts_idle_startBuilding starts_idle_setWorkflowBlueprint starts_idle_retryBuilding
    starts_idle_markWorkflowReady starts_idle_handleError starts_idle_reset
    starts_idle_ensureStateForBuilding starts_idle_moveToValidation starts_idle_moveToReady
    starts_idle_update setClarifyingAnswers_def setProvidedCredentials_def
    addValidationError_def clearValidationErrors_def)

lemma starts_idle_foldl: "starts_idle m \<Longrightarrow> starts_idle (foldl (perform toLowerCase) m cs)"
  by (induction cs arbitrary: m) (simp_all add: starts_idle_perform)

subsection \<open>Retrying\<close>

lemma retryBuilding_from_validation:
  assumes "current_state (executionState m) = STATE_6_WORKFLOW_VALIDATION"
    and "retry_count (executionState m) < 3"
  shows "retryBuilding m =
    (\<lparr>success = True, error = None\<rparr>,
     m\<lparr>executionState := (executionState m)
          \<lparr>retry_count := retry_count (executionState m) + 1,
           workflow_blueprint := \<lparr>nodes = None, edges = None, blueprint_structure = None\<rparr>,
           validation_errors := [],
           state_history := state_history (executionState m)
             @ [\<lparr>state = STATE_5_WORKFLOW_BUILDING, timestamp = shd (clock m),
                 reason = Some (''Retry '' @ string_of_nat (retry_count (executionState m) + 1)
                            @ ''/3'')\<rparr>],
           current_state := STATE_5_WORKFLOW_BUILDING\<rparr>,
       clock := stl (clock m)\<rparr>)"
  using assms
  by (simp add: retryBuilding_def clearValidationErrors_def Let_def transitionTo_allowed)

lemma retryBuilding_exhausted:
  "retry_count (executionState m) \<ge> 3 \<Longrightarrow>
   retryBuilding m =
     (\<lparr>success = False,
       error = Some ''Maximum retry count (3) reached. Moving to error handling.''\<rparr>, m)"
  by (simp add: retryBuilding_def)

lemma retryBuilding_rejected:
  assumes "STATE_5_WORKFLOW_BUILDING
      \<notin> set (ALLOWED_TRANSITIONS (current_state (executionState m)))"
    and "retry_count (executionState m) < 3"
  shows "retryBuilding m =
    (\<lparr>success = False,
      error = Some (''Invalid transition from ''
                @ state_string (current_state (executionState m))
                @ '' to STATE_5_WORKFLOW_BUILDING. Allowed states: ''
                @ join '', '' (map state_string
                    (ALLOWED_TRANSITIONS (current_state (executionState m)))))\<rparr>,
     m\<lparr>executionState := (executionState m)
          \<lparr>retry_count := retry_count (executionState m) + 1,
           workflow_blueprint := \<lparr>nodes = None, edges = None, blueprint_structure = None\<rparr>,
           validation_errors := []\<rparr>\<rparr>)"
  using assms
  by (simp add: retryBuilding_def clearValidationErrors_def Let_def transitionTo_rejected)

lemma retryBuilding_keeps_position:
  "\<not> success (fst (retryBuilding m)) \<Longrightarrow>
   current_state (executionState (snd (retryBuilding m))) = current_state (executionState m) \<and>
   state_history (executionState (snd (retryBuilding m))) = state_history (executionState m)"
  by (cases "retry_count (executionState m) \<ge> 3";
      cases "STATE_5_WORKFLOW_BUILDING
        \<in> set (ALLOWED_TRANSITIONS (current_state (executionState m)))")
     (simp_all add: retryBuilding_def clearValidationErrors_def Let_def transitionTo_rejected
        transitionTo_allowed)

lemma retryBuilding_from_building:
  assumes "current_state (executionState m) = STATE_5_WORKFLOW_BUILDING"
  shows "\<not> success (fst (retryBuilding m)) \<and>
    current_state (executionState (snd (retryBuilding m))) = STATE_5_WORKFLOW_BUILDING \<and>
    state_history (executionState (snd (retryBuilding m))) = state_history (executionState m)"
proof -
  have "\<not> success (fst (retryBuilding m))"
  proof (cases "retry_count (executionState m) \<ge> 3")
    case True
    then show ?thesis by (simp add: retryBuilding_exhausted)
  next
    case False
    then have "retry_count (executionState m) < 3" by simp
    with assms show ?thesis by (simp add: retryBuilding_rejected)
  qed
  with retryBuilding_keeps_position [of m] assms show ?thesis by simp
qed

lemma setWorkflowBlueprint_from_building:
  "current_state (executionState m) = STATE_5_WORKFLOW_BUILDING \<Longrightarrow>
   setWorkflowBlueprint m b =
     m\<lparr>executionState := (executionState m)
          \<lparr>workflow_blueprint := b,
           state_history := state_history (executionState m)
             @ [\<lparr>state = STATE_6_WORKFLOW_VALIDATION, timestamp = shd (clock m),
                 reason = Some ''Workflow blueprint generated''\<rparr>],
           current_state := STATE_6_WORKFLOW_VALIDATION\<rparr>,
       clock := stl (clock m)\<rparr>"
  by (simp add: setWorkflowBlueprint_def transitionTo_allowed)

lemma retry_cycle_position:
  assumes "current_state (executionState m) = STATE_6_WORKFLOW_VALIDATION"
    and "retry_count (executionState m) < 3"
  shows "current_state (executionState (retry_cycle m b)) = STATE_6_WORKFLOW_VALIDATION"
    and "retry_count (executionState (retry_cycle m b)) = retry_count (executionState m) + 1"
  by (simp_all add: retry_cycle_def retryBuilding_from_validation [OF assms]
      setWorkflowBlueprint_from_building)

subsection \<open>Credentials\<close>

lemma truthy_get_property:
  "truthy (get_property obj k) \<longleftrightarrow>
     \<not> (obj k = Some [] \<or> (obj k = None \<and> k \<notin> set Object_prototype))"
  by (cases "obj k") (auto simp: get_property_def)

lemma missingCredentials_eq:
  assumes "\<forall>n \<in> set (credentials_required es).
      n \<notin> set Object_prototype \<and> toLowerCase n \<notin> set Object_prototype"
  shows "missingCredentials toLowerCase es =
     filter (\<lambda>n. \<forall>k \<in> {n, toLowerCase n}.
                credentials_provided es k = None \<or> credentials_provided es k = Some [])
       (credentials_required es)"
  unfolding missingCredentials_def replace_underscores_id truthy_get_property
  using assms by (intro filter_cong) auto

lemma ascii_toLowerCase_eval:
  "ascii_toLowerCase ''google'' = ''google''"
  "ascii_toLowerCase ''slack'' = ''slack''"
  "ascii_toLowerCase ''Google'' = ''google''"
  by (simp_all add: ascii_toLowerCase_def ascii_toLowerCase_char_def)

lemma startBuilding_passes:
  "missingCredentials toLowerCase (executionState m) = [] \<Longrightarrow>
   final_understanding (executionState m) \<noteq> [] \<Longrightarrow>
   startBuilding toLowerCase m =
     transitionTo m STATE_5_WORKFLOW_BUILDING (Some ''Workflow building started'')"
  by (simp add: startBuilding_def)

lemma missingCredentials_Google:
  "missingCredentials ascii_toLowerCase
     (executionState (awaiting_credentials [''Google''] [''google'' \<mapsto> ''token''])) = []"
  by (simp add: missingCredentials_def replace_underscores_id truthy_get_property
      awaiting_credentials_eval ascii_toLowerCase_eval)

subsection \<open>Operations that reject before they write\<close>

lemma confirmUnderstanding_rejection:
  "\<not> success (fst (confirmUnderstanding m u)) \<Longrightarrow> snd (confirmUnderstanding m u) = m"
  by (cases "current_state (executionState m) = STATE_2_CLARIFICATION_ACTIVE")
     (simp_all add: confirmUnderstanding_def transitionTo_allowed)

lemma startBuilding_rejection:
  "\<not> success (fst (startBuilding toLowerCase m)) \<Longrightarrow> snd (startBuilding toLowerCase m) = m"
  by (cases "STATE_5_WORKFLOW_BUILDING
        \<in> set (ALLOWED_TRANSITIONS (current_state (executionState m)))")
     (auto simp: startBuilding_def transitionTo_allowed transitionTo_rejected
        split: if_splits)

lemma markWorkflowReady_rejection:
  "\<not> success (fst (markWorkflowReady m)) \<Longrightarrow> snd (markWorkflowReady m) = m"
  by (cases "STATE_7_WORKFLOW_READY
        \<in> set (ALLOWED_TRANSITIONS (current_state (executionState m)))")
     (auto simp: markWorkflowReady_def transitionTo_allowed transitionTo_rejected
        split: if_splits)

lemma handleError_from_validation:
  "current_state (executionState m) = STATE_6_WORKFLOW_VALIDATION \<Longrightarrow>
   handleError m e =
     m\<lparr>executionState := (executionState m)
          \<lparr>last_error := Some e,
           state_history := state_history (executionState m)
             @ [\<lparr>state = STATE_ERROR_HANDLING, timestamp = shd (clock m),
                 reason = Some (''Error: '' @ e)\<rparr>],
           current_state := STATE_ERROR_HANDLING\<rparr>,
       clock := stl (clock m)\<rparr>"
  by (simp add: handleError_def transitionTo_allowed)

lemma mapWizardStepToState_unknown:
  "step \<notin> set (map fst stepMap) \<Longrightarrow> step \<notin> set Object_prototype \<Longrightarrow>
   mapWizardStepToState step = Value STATE_0_IDLE"
  by (simp add: mapWizardStepToState_def get_property_def map_of_eq_None_iff [THEN iffD2])

section \<open>The claims\<close>

subsection \<open>C1: handleError\<close>

text \<open>
  Claim C1 says that \<open>handleError\<close> records the message and moves to error handling from
  each of the eight other states, whether or not the table lists error handling under the
  current state. The method writes \<open>last_error\<close> and then calls \<open>transitionTo\<close>, which
  checks the table, and the table lists \<open>STATE_ERROR_HANDLING\<close> under
  \<open>STATE_6_WORKFLOW_VALIDATION\<close> only. So from every state other than
  \<open>STATE_6_WORKFLOW_VALIDATION\<close> the call records the message and does nothing else: the
  current state, the history and the clock are as before. The method's own comment reads
  \<^verbatim>\<open>ANY STATE -> STATE_ERROR_HANDLING\<close>.
\<close>

theorem handleError_rejected:
  assumes "current_state (executionState m) \<noteq> STATE_6_WORKFLOW_VALIDATION"
  shows "handleError m e = m\<lparr>executionState := (executionState m)\<lparr>last_error := Some e\<rparr>\<rparr>"
proof -
  have "STATE_ERROR_HANDLING \<notin> set (ALLOWED_TRANSITIONS (current_state (executionState m)))"
    using assms by (simp add: error_handling_allowed_from)
  then show ?thesis
    by (simp add: handleError_def transitionTo_rejected)
qed

text \<open>
  The instance for claim C1: a fresh manager is idle, and after
  \<^verbatim>\<open>handleError('model timed out')\<close> it is still idle, with the message recorded and no
  history entry added.
\<close>

theorem handleError_rejected_witness:
  "current_state (executionState fresh) = STATE_0_IDLE \<and>
   last_error (executionState (handleError fresh ''model timed out''))
     = Some ''model timed out'' \<and>
   current_state (executionState (handleError fresh ''model timed out'')) = STATE_0_IDLE \<and>
   state_history (executionState (handleError fresh ''model timed out'')) =
     state_history (executionState fresh)"
proof -
  have "current_state (executionState fresh) \<noteq> STATE_6_WORKFLOW_VALIDATION"
    by (simp add: fresh_eval)
  from handleError_rejected [OF this, of "''model timed out''"] show ?thesis
    by (simp add: fresh_eval)
qed

subsection \<open>C2: a failing operation and the state\<close>

text \<open>
  Claim C2 says that an operation that returns a failure leaves the whole execution state
  as it was, and names \<open>retryBuilding\<close> in particular. \<open>retryBuilding\<close> increments
  \<open>retry_count\<close> and clears the blueprint and the validation errors before it calls
  \<open>transitionTo\<close>. When the retry budget is not used up and the table does not allow the
  move to \<open>STATE_5_WORKFLOW_BUILDING\<close> from the current state, the call returns a failure
  and the three fields are written all the same.
\<close>

theorem retryBuilding_partial_mutation:
  assumes "current_state (executionState m) \<notin>
      {STATE_3_UNDERSTANDING_CONFIRMED, STATE_4_CREDENTIAL_COLLECTION,
       STATE_6_WORKFLOW_VALIDATION}"
    and "retry_count (executionState m) < 3"
  shows "\<not> success (fst (retryBuilding m)) \<and>
    retry_count (executionState (snd (retryBuilding m))) = retry_count (executionState m) + 1 \<and>
    workflow_blueprint (executionState (snd (retryBuilding m))) =
      \<lparr>nodes = None, edges = None, blueprint_structure = None\<rparr> \<and>
    validation_errors (executionState (snd (retryBuilding m))) = [] \<and>
    snd (retryBuilding m) \<noteq> m"
proof -
  have "STATE_5_WORKFLOW_BUILDING
      \<notin> set (ALLOWED_TRANSITIONS (current_state (executionState m)))"
    using assms(1) by (simp add: building_allowed_from)
  note r = retryBuilding_rejected [OF this assms(2)]
  have "retry_count (executionState (snd (retryBuilding m))) \<noteq> retry_count (executionState m)"
    by (simp add: r)
  then have "snd (retryBuilding m) \<noteq> m"
    by auto
  then show ?thesis
    by (simp add: r)
qed

text \<open>
  The instance for claim C2: \<open>retryBuilding\<close> on a fresh, idle manager returns a failure
  and leaves \<open>retry_count\<close> at 1.
\<close>

theorem retryBuilding_partial_mutation_witness:
  "\<not> success (fst (retryBuilding fresh)) \<and>
   retry_count (executionState fresh) = 0 \<and>
   retry_count (executionState (snd (retryBuilding fresh))) = 1 \<and>
   snd (retryBuilding fresh) \<noteq> fresh"
proof -
  have pre: "current_state (executionState fresh) \<notin>
      {STATE_3_UNDERSTANDING_CONFIRMED, STATE_4_CREDENTIAL_COLLECTION,
       STATE_6_WORKFLOW_VALIDATION}" "retry_count (executionState fresh) < 3"
    by (simp_all add: fresh_eval)
  from retryBuilding_partial_mutation [OF pre] show ?thesis
    by (simp add: fresh_eval)
qed

subsection \<open>C3: the retry budget\<close>

text \<open>
  Claim C3, as stated, fails: after the first \<open>retryBuilding\<close> the manager is in
  \<open>STATE_5_WORKFLOW_BUILDING\<close>, which the table does not allow to move to itself, so a
  second call with nothing in between does not succeed.
\<close>

theorem retryBuilding_counterexample:
  "current_state (executionState (reach validation_path)) = STATE_6_WORKFLOW_VALIDATION \<and>
   retry_count (executionState (reach validation_path)) = 0 \<and>
   success (fst (retryBuilding (reach validation_path))) \<and>
   \<not> success (fst (retryBuilding (snd (retryBuilding (reach validation_path)))))"
proof -
  have "retry_count (executionState (reach validation_path)) < 3"
    by (simp add: reach_validation_path_eval)
  note first = retryBuilding_from_validation [OF reach_validation_path_eval(1) this]
  show ?thesis
    by (simp add: reach_validation_path_eval first retryBuilding_rejected)
qed

text \<open>
  Claim C3, amended. Start in \<open>STATE_6_WORKFLOW_VALIDATION\<close> with \<open>retry_count\<close> 0 and make
  each \<open>retryBuilding\<close> call from \<open>STATE_6_WORKFLOW_VALIDATION\<close>, the manager being
  brought back there by \<open>setWorkflowBlueprint\<close> after each retry. Then attempts 1, 2 and 3
  succeed, set \<open>retry_count\<close> to 1, 2 and 3, clear the blueprint and the validation errors
  and leave the manager in \<open>STATE_5_WORKFLOW_BUILDING\<close>; attempt 4 returns the failure
  \<^verbatim>\<open>Maximum retry count (3) reached. Moving to error handling.\<close> and leaves the manager
  as it was. A \<open>retryBuilding\<close> call made from \<open>STATE_5_WORKFLOW_BUILDING\<close>, as is every
  call made directly after a successful one with nothing in between, returns a failure,
  and the current state and the history stay as they were; made directly after the first
  attempt, that failure is not the retry-budget failure.
\<close>

theorem retryBuilding_budget:
  fixes m w :: WorkflowGenerationStateManager and b1 b2 b3 :: workflow_blueprint
  defines "m1 \<equiv> retry_cycle m b1"
  defines "m2 \<equiv> retry_cycle m1 b2"
  defines "m3 \<equiv> retry_cycle m2 b3"
  assumes "current_state (executionState m) = STATE_6_WORKFLOW_VALIDATION"
    and "retry_count (executionState m) = 0"
  shows
    "success (fst (retryBuilding m)) \<and>
     retry_count (executionState (snd (retryBuilding m))) = 1 \<and>
     workflow_blueprint (executionState (snd (retryBuilding m))) =
       \<lparr>nodes = None, edges = None, blueprint_structure = None\<rparr> \<and>
     validation_errors (executionState (snd (retryBuilding m))) = [] \<and>
     current_state (executionState (snd (retryBuilding m))) = STATE_5_WORKFLOW_BUILDING \<and>
     success (fst (retryBuilding m1)) \<and>
     retry_count (executionState (snd (retryBuilding m1))) = 2 \<and>
     workflow_blueprint (executionState (snd (retryBuilding m1))) =
       \<lparr>nodes = None, edges = None, blueprint_structure = None\<rparr> \<and>
     validation_errors (executionState (snd (retryBuilding m1))) = [] \<and>
     current_state (executionState (snd (retryBuilding m1))) = STATE_5_WORKFLOW_BUILDING \<and>
     success (fst (retryBuilding m2)) \<and>
     retry_count (executionState (snd (retryBuilding m2))) = 3 \<and>
     workflow_blueprint (executionState (snd (retryBuilding m2))) =
       \<lparr>nodes = None, edges = None, blueprint_structure = None\<rparr> \<and>
     validation_errors (executionState (snd (retryBuilding m2))) = [] \<and>
     current_state (executionState (snd (retryBuilding m2))) = STATE_5_WORKFLOW_BUILDING \<and>
     retryBuilding m3 =
       (\<lparr>success = False,
         error = Some ''Maximum retry count (3) reached. Moving to error handling.''\<rparr>, m3) \<and>
     (current_state (executionState w) = STATE_5_WORKFLOW_BUILDING \<longrightarrow>
        \<not> success (fst (retryBuilding w)) \<and>
        current_state (executionState (snd (retryBuilding w))) = STATE_5_WORKFLOW_BUILDING \<and>
        state_history (executionState (snd (retryBuilding w))) =
          state_history (executionState w)) \<and>
     \<not> success (fst (retryBuilding (snd (retryBuilding m)))) \<and>
     error (fst (retryBuilding (snd (retryBuilding m)))) \<noteq>
       Some ''Maximum retry count (3) reached. Moving to error handling.'' \<and>
     current_state (executionState (snd (retryBuilding (snd (retryBuilding m))))) =
       STATE_5_WORKFLOW_BUILDING \<and>
     state_history (executionState (snd (retryBuilding (snd (retryBuilding m))))) =
       state_history (executionState (snd (retryBuilding m)))"
proof -
  have direct: "current_state (executionState w) = STATE_5_WORKFLOW_BUILDING \<longrightarrow>
        \<not> success (fst (retryBuilding w)) \<and>
        current_state (executionState (snd (retryBuilding w))) = STATE_5_WORKFLOW_BUILDING \<and>
        state_history (executionState (snd (retryBuilding w))) =
          state_history (executionState w)"
    using retryBuilding_from_building [of w] by blast
  have p0: "current_state (executionState m) = STATE_6_WORKFLOW_VALIDATION"
    "retry_count (executionState m) < 3"
    using assms by simp_all
  have p1: "current_state (executionState m1) = STATE_6_WORKFLOW_VALIDATION"
    "retry_count (executionState m1) = 1"
    using retry_cycle_position [OF p0, of b1] assms by (simp_all add: m1_def)
  then have q1: "retry_count (executionState m1) < 3" by simp
  have p2: "current_state (executionState m2) = STATE_6_WORKFLOW_VALIDATION"
    "retry_count (executionState m2) = 2"
    using retry_cycle_position [OF p1(1) q1, of b2] p1 by (simp_all add: m2_def)
  then have q2: "retry_count (executionState m2) < 3" by simp
  have p3: "retry_count (executionState m3) = 3"
    using retry_cycle_position [OF p2(1) q2, of b3] p2 by (simp add: m3_def)
  have a0: "success (fst (retryBuilding m)) \<and>
     retry_count (executionState (snd (retryBuilding m))) = 1 \<and>
     workflow_blueprint (executionState (snd (retryBuilding m))) =
       \<lparr>nodes = None, edges = None, blueprint_structure = None\<rparr> \<and>
     validation_errors (executionState (snd (retryBuilding m))) = [] \<and>
     current_state (executionState (snd (retryBuilding m))) = STATE_5_WORKFLOW_BUILDING"
    using assms by (simp add: retryBuilding_from_validation [OF p0])
  have a1: "success (fst (retryBuilding m1)) \<and>
     retry_count (executionState (snd (retryBuilding m1))) = 2 \<and>
     workflow_blueprint (executionState (snd (retryBuilding m1))) =
       \<lparr>nodes = None, edges = None, blueprint_structure = None\<rparr> \<and>
     validation_errors (executionState (snd (retryBuilding m1))) = [] \<and>
     current_state (executionState (snd (retryBuilding m1))) = STATE_5_WORKFLOW_BUILDING"
    using p1 by (simp add: retryBuilding_from_validation [OF p1(1) q1])
  have a2: "success (fst (retryBuilding m2)) \<and>
     retry_count (executionState (snd (retryBuilding m2))) = 3 \<and>
     workflow_blueprint (executionState (snd (retryBuilding m2))) =
       \<lparr>nodes = None, edges = None, blueprint_structure = None\<rparr> \<and>
     validation_errors (executionState (snd (retryBuilding m2))) = [] \<and>
     current_state (executionState (snd (retryBuilding m2))) = STATE_5_WORKFLOW_BUILDING"
    using p2 by (simp add: retryBuilding_from_validation [OF p2(1) q2])
  have a3: "retryBuilding m3 =
       (\<lparr>success = False,
         error = Some ''Maximum retry count (3) reached. Moving to error handling.''\<rparr>, m3)"
    using p3 by (simp add: retryBuilding_exhausted)
  have again: "\<not> success (fst (retryBuilding (snd (retryBuilding m)))) \<and>
     error (fst (retryBuilding (snd (retryBuilding m)))) \<noteq>
       Some ''Maximum retry count (3) reached. Moving to error handling.''"
    using a0 by (simp add: retryBuilding_rejected)
  then have stays:
    "current_state (executionState (snd (retryBuilding (snd (retryBuilding m))))) =
       STATE_5_WORKFLOW_BUILDING \<and>
     state_history (executionState (snd (retryBuilding (snd (retryBuilding m))))) =
       state_history (executionState (snd (retryBuilding m)))"
    using retryBuilding_keeps_position [of "snd (retryBuilding m)"] a0 by simp
  show ?thesis
    using a0 a1 a2 a3 direct again stays by blast
qed

text \<open>
  The instance for claim C3: the manager driven to validation, retried with the sample
  blueprint rebuilt after each retry, and a retry from a manager driven to building.
\<close>

theorem retryBuilding_budget_witness:
  "success (fst (retryBuilding (reach validation_path))) \<and>
   retry_count (executionState (snd (retryBuilding
     (retry_cycle (retry_cycle (reach validation_path) sample_blueprint)
        sample_blueprint)))) = 3 \<and>
   error (fst (retryBuilding
     (retry_cycle (retry_cycle (retry_cycle (reach validation_path) sample_blueprint)
        sample_blueprint) sample_blueprint))) =
     Some ''Maximum retry count (3) reached. Moving to error handling.'' \<and>
   \<not> success (fst (retryBuilding (snd (retryBuilding (reach validation_path))))) \<and>
   \<not> success (fst (retryBuilding (reach building_path)))"
proof -
  have building:
    "current_state (executionState (reach building_path)) = STATE_5_WORKFLOW_BUILDING"
    by (simp add: manager_defs operation_defs)
  show ?thesis
    using retryBuilding_budget [OF reach_validation_path_eval(1,2),
        of sample_blueprint sample_blueprint sample_blueprint "reach building_path"]
    by (simp add: building)
qed

subsection \<open>C4: the transition table\<close>

text \<open>
  Claim C4, as stated, fails: the table holds three edges that the claimed set does not,
  one of which enters error handling. From a manager in \<open>STATE_6_WORKFLOW_VALIDATION\<close>
  the transition to \<open>STATE_ERROR_HANDLING\<close> is valid, although the pair is not in the
  claimed set and the claim says that no state lists error handling as a successor.
\<close>

theorem claimed_transitions_counterexample:
  "current_state (executionState (reach validation_path)) = STATE_6_WORKFLOW_VALIDATION \<and>
   valid (canTransitionTo (reach validation_path) STATE_ERROR_HANDLING) \<and>
   (STATE_6_WORKFLOW_VALIDATION, STATE_ERROR_HANDLING) \<notin> set claimed_transitions \<and>
   STATE_ERROR_HANDLING \<in> set (ALLOWED_TRANSITIONS STATE_6_WORKFLOW_VALIDATION)"
  by (simp add: reach_validation_path_eval canTransitionTo_def claimed_transitions_def
      pipeline_order_def)

text \<open>
  Claim C4, amended: the legal transitions are the linear pipeline order, the three
  deviations and the two exits of error handling, together with three further edges: back
  from \<open>STATE_3_UNDERSTANDING_CONFIRMED\<close> to \<open>STATE_2_CLARIFICATION_ACTIVE\<close>, the retry
  edge from \<open>STATE_6_WORKFLOW_VALIDATION\<close> to \<open>STATE_5_WORKFLOW_BUILDING\<close>, and the edge
  from \<open>STATE_6_WORKFLOW_VALIDATION\<close> to \<open>STATE_ERROR_HANDLING\<close>. \<open>canTransitionTo\<close> is
  valid exactly on this set, for every current state and every target.
  \<open>STATE_7_WORKFLOW_READY\<close> has no successor, \<open>STATE_ERROR_HANDLING\<close> is a successor of
  \<open>STATE_6_WORKFLOW_VALIDATION\<close> and of no other state, and its own successors are
  \<open>STATE_2_CLARIFICATION_ACTIVE\<close> and \<open>STATE_0_IDLE\<close>.
\<close>

theorem transition_table_edges:
  "(valid (canTransitionTo m T) \<longleftrightarrow>
      (current_state (executionState m), T) \<in> set claimed_transitions \<union>
        {(STATE_3_UNDERSTANDING_CONFIRMED, STATE_2_CLARIFICATION_ACTIVE),
         (STATE_6_WORKFLOW_VALIDATION, STATE_5_WORKFLOW_BUILDING),
         (STATE_6_WORKFLOW_VALIDATION, STATE_ERROR_HANDLING)}) \<and>
   ALLOWED_TRANSITIONS STATE_7_WORKFLOW_READY = [] \<and>
   (STATE_ERROR_HANDLING \<in> set (ALLOWED_TRANSITIONS S) \<longleftrightarrow> S = STATE_6_WORKFLOW_VALIDATION) \<and>
   set (ALLOWED_TRANSITIONS STATE_ERROR_HANDLING) =
     {STATE_2_CLARIFICATION_ACTIVE, STATE_0_IDLE}"
proof -
  have "valid (canTransitionTo m T) \<longleftrightarrow>
      (current_state (executionState m), T) \<in> set claimed_transitions \<union>
        {(STATE_3_UNDERSTANDING_CONFIRMED, STATE_2_CLARIFICATION_ACTIVE),
         (STATE_6_WORKFLOW_VALIDATION, STATE_5_WORKFLOW_BUILDING),
         (STATE_6_WORKFLOW_VALIDATION, STATE_ERROR_HANDLING)}"
    by (cases "current_state (executionState m)"; cases T;
        simp add: canTransitionTo_def claimed_transitions_def pipeline_order_def)
  then show ?thesis
    using error_handling_allowed_from [of S] by auto
qed

text \<open>
  The instance for claim C4: from validation, the moves to ready and back to building are
  valid and the move to idle is not.
\<close>

theorem transition_table_edges_witness:
  "valid (canTransitionTo (reach validation_path) STATE_7_WORKFLOW_READY) \<and>
   valid (canTransitionTo (reach validation_path) STATE_5_WORKFLOW_BUILDING) \<and>
   \<not> valid (canTransitionTo (reach validation_path) STATE_0_IDLE)"
  using transition_table_edges [of "reach validation_path" STATE_7_WORKFLOW_READY]
    transition_table_edges [of "reach validation_path" STATE_5_WORKFLOW_BUILDING]
    transition_table_edges [of "reach validation_path" STATE_0_IDLE]
  by (simp add: reach_validation_path_eval claimed_transitions_def pipeline_order_def)

subsection \<open>C5: startBuilding\<close>

text \<open>
  Claim C5, as stated, fails in two places. A required name is also looked up in lower
  case: with \<^verbatim>\<open>Google\<close> required and only \<^verbatim>\<open>google\<close> provided, the required name is not
  present among the provided ones and \<open>startBuilding\<close> succeeds. And passing both guards
  does not by itself move the machine: a second \<open>startBuilding\<close>, made from
  \<open>STATE_5_WORKFLOW_BUILDING\<close> with both guards passing, is rejected by the table.
\<close>

theorem startBuilding_counterexample:
  "credentials_required
     (executionState (awaiting_credentials [''Google''] [''google'' \<mapsto> ''token'']))
     = [''Google''] \<and>
   credentials_provided
     (executionState (awaiting_credentials [''Google''] [''google'' \<mapsto> ''token'']))
     ''Google'' = None \<and>
   success (fst (startBuilding ascii_toLowerCase
     (awaiting_credentials [''Google''] [''google'' \<mapsto> ''token'']))) \<and>
   missingCredentials ascii_toLowerCase (executionState (snd (startBuilding ascii_toLowerCase
     (awaiting_credentials [''Google''] [''google'' \<mapsto> ''token''])))) = [] \<and>
   final_understanding (executionState (snd (startBuilding ascii_toLowerCase
     (awaiting_credentials [''Google''] [''google'' \<mapsto> ''token''])))) \<noteq> [] \<and>
   \<not> success (fst (startBuilding ascii_toLowerCase (snd (startBuilding ascii_toLowerCase
     (awaiting_credentials [''Google''] [''google'' \<mapsto> ''token''])))))"
proof -
  let ?m = "awaiting_credentials [''Google''] [''google'' \<mapsto> ''token'']"
  let ?s = "startBuilding ascii_toLowerCase"
  have first: "?s ?m =
      transitionTo ?m STATE_5_WORKFLOW_BUILDING (Some ''Workflow building started'')"
    by (rule startBuilding_passes)
       (simp_all add: missingCredentials_Google awaiting_credentials_eval)
  have moved: "?s ?m =
     (\<lparr>success = True, error = None\<rparr>,
      ?m\<lparr>executionState := (executionState ?m)
           \<lparr>state_history := state_history (executionState ?m)
              @ [\<lparr>state = STATE_5_WORKFLOW_BUILDING, timestamp = shd (clock ?m),
                  reason = Some (or_default (Some ''Workflow building started'')
                             ''State transition'')\<rparr>],
            current_state := STATE_5_WORKFLOW_BUILDING\<rparr>,
        clock := stl (clock ?m)\<rparr>)"
    unfolding first
    by (rule transitionTo_allowed) (simp add: awaiting_credentials_eval)
  have missing: "missingCredentials ascii_toLowerCase (executionState (snd (?s ?m))) = []"
    using missingCredentials_Google
    by (simp add: moved missingCredentials_def)
  have understood: "final_understanding (executionState (snd (?s ?m))) \<noteq> []"
    by (simp add: moved awaiting_credentials_eval)
  have second: "?s (snd (?s ?m)) =
      transitionTo (snd (?s ?m)) STATE_5_WORKFLOW_BUILDING
        (Some ''Workflow building started'')"
    using missing understood by (rule startBuilding_passes)
  have "\<not> success (fst (?s (snd (?s ?m))))"
    unfolding second by (simp add: moved transitionTo_rejected)
  with missing understood show ?thesis
    by (simp add: awaiting_credentials_eval moved)
qed

text \<open>
  Claim C5, amended. \<open>startBuilding\<close> fails whenever \<open>final_understanding\<close> is empty, and
  that failure leaves the manager as it was. The rest is about required names such that
  neither the name nor its lower-case form is the name of a member of
  \<^verbatim>\<open>Object.prototype\<close>. Among these, a required name is missing when neither the name nor
  its lower-case form has a non-empty string as value in \<open>credentials_provided\<close>.
  \<open>startBuilding\<close> fails whenever some required name is missing in this sense; the failure
  message lists exactly the missing names, in the order of \<open>credentials_required\<close>, and the
  manager is left as it was. When no required name is missing, \<open>final_understanding\<close> is
  not empty and the current state is \<open>STATE_3_UNDERSTANDING_CONFIRMED\<close>,
  \<open>STATE_4_CREDENTIAL_COLLECTION\<close> or \<open>STATE_6_WORKFLOW_VALIDATION\<close>, the call moves the
  machine to \<open>STATE_5_WORKFLOW_BUILDING\<close>; when both guards pass in any other state, it
  fails and leaves the manager as it was. All of this holds for whatever function
  \<open>toLowerCase\<close> is.
\<close>

theorem startBuilding_guards:
  fixes toLowerCase :: "string \<Rightarrow> string" and m :: WorkflowGenerationStateManager
  defines "missing \<equiv>
     filter (\<lambda>n. \<forall>k \<in> {n, toLowerCase n}.
                credentials_provided (executionState m) k = None \<or>
                credentials_provided (executionState m) k = Some [])
       (credentials_required (executionState m))"
  shows
  "(final_understanding (executionState m) = [] \<longrightarrow>
      \<not> success (fst (startBuilding toLowerCase m)) \<and> snd (startBuilding toLowerCase m) = m) \<and>
   ((\<forall>n \<in> set (credentials_required (executionState m)).
        n \<notin> set Object_prototype \<and> toLowerCase n \<notin> set Object_prototype) \<longrightarrow>
    (missing \<noteq> [] \<longrightarrow>
       startBuilding toLowerCase m =
         (\<lparr>success = False,
           error = Some (''Cannot build workflow: Missing required credentials: ''
                     @ join '', '' missing)\<rparr>, m)) \<and>
    (missing = [] \<and>
     final_understanding (executionState m) \<noteq> [] \<and>
     current_state (executionState m) \<in>
       {STATE_3_UNDERSTANDING_CONFIRMED, STATE_4_CREDENTIAL_COLLECTION,
        STATE_6_WORKFLOW_VALIDATION} \<longrightarrow>
       startBuilding toLowerCase m =
         (\<lparr>success = True, error = None\<rparr>,
          m\<lparr>executionState := (executionState m)
               \<lparr>state_history := state_history (executionState m)
                  @ [\<lparr>state = STATE_5_WORKFLOW_BUILDING, timestamp = shd (clock m),
                      reason = Some ''Workflow building started''\<rparr>],
                current_state := STATE_5_WORKFLOW_BUILDING\<rparr>,
            clock := stl (clock m)\<rparr>)) \<and>
    (missing = [] \<and>
     final_understanding (executionState m) \<noteq> [] \<and>
     current_state (executionState m) \<notin>
       {STATE_3_UNDERSTANDING_CONFIRMED, STATE_4_CREDENTIAL_COLLECTION,
        STATE_6_WORKFLOW_VALIDATION} \<longrightarrow>
       \<not> success (fst (startBuilding toLowerCase m)) \<and>
       snd (startBuilding toLowerCase m) = m))"
proof -
  have unconfirmed: "final_understanding (executionState m) = [] \<longrightarrow>
      \<not> success (fst (startBuilding toLowerCase m)) \<and> snd (startBuilding toLowerCase m) = m"
    by (simp add: startBuilding_def)
  have rest:
    "(missing \<noteq> [] \<longrightarrow>
       startBuilding toLowerCase m =
         (\<lparr>success = False,
           error = Some (''Cannot build workflow: Missing required credentials: ''
                     @ join '', '' missing)\<rparr>, m)) \<and>
    (missing = [] \<and>
     final_understanding (executionState m) \<noteq> [] \<and>
     current_state (executionState m) \<in>
       {STATE_3_UNDERSTANDING_CONFIRMED, STATE_4_CREDENTIAL_COLLECTION,
        STATE_6_WORKFLOW_VALIDATION} \<longrightarrow>
       startBuilding toLowerCase m =
         (\<lparr>success = True, error = None\<rparr>,
          m\<lparr>executionState := (executionState m)
               \<lparr>state_history := state_history (executionState m)
                  @ [\<lparr>state = STATE_5_WORKFLOW_BUILDING, timestamp = shd (clock m),
                      reason = Some ''Workflow building started''\<rparr>],
                current_state := STATE_5_WORKFLOW_BUILDING\<rparr>,
            clock := stl (clock m)\<rparr>)) \<and>
    (missing = [] \<and>
     final_understanding (executionState m) \<noteq> [] \<and>
     current_state (executionState m) \<notin>
       {STATE_3_UNDERSTANDING_CONFIRMED, STATE_4_CREDENTIAL_COLLECTION,
        STATE_6_WORKFLOW_VALIDATION} \<longrightarrow>
       \<not> success (fst (startBuilding toLowerCase m)) \<and>
       snd (startBuilding toLowerCase m) = m)"
    if names: "\<forall>n \<in> set (credentials_required (executionState m)).
        n \<notin> set Object_prototype \<and> toLowerCase n \<notin> set Object_prototype"
  proof -
    have eq: "missingCredentials toLowerCase (executionState m) = missing"
      unfolding missing_def using names by (rule missingCredentials_eq)
    have fails: "missing \<noteq> [] \<longrightarrow>
       startBuilding toLowerCase m =
         (\<lparr>success = False,
           error = Some (''Cannot build workflow: Missing required credentials: ''
                     @ join '', '' missing)\<rparr>, m)"
      using eq by (auto simp: startBuilding_def missingCredentials_def)
    have moves: "missing = [] \<and>
     final_understanding (executionState m) \<noteq> [] \<and>
     current_state (executionState m) \<in>
       {STATE_3_UNDERSTANDING_CONFIRMED, STATE_4_CREDENTIAL_COLLECTION,
        STATE_6_WORKFLOW_VALIDATION} \<longrightarrow>
       startBuilding toLowerCase m =
         (\<lparr>success = True, error = None\<rparr>,
          m\<lparr>executionState := (executionState m)
               \<lparr>state_history := state_history (executionState m)
                  @ [\<lparr>state = STATE_5_WORKFLOW_BUILDING, timestamp = shd (clock m),
                      reason = Some ''Workflow building started''\<rparr>],
                current_state := STATE_5_WORKFLOW_BUILDING\<rparr>,
            clock := stl (clock m)\<rparr>)"
      using startBuilding_passes [of toLowerCase m] eq
        building_allowed_from [of "current_state (executionState m)"]
      by (simp add: transitionTo_allowed)
    have stays: "missing = [] \<and>
     final_understanding (executionState m) \<noteq> [] \<and>
     current_state (executionState m) \<notin>
       {STATE_3_UNDERSTANDING_CONFIRMED, STATE_4_CREDENTIAL_COLLECTION,
        STATE_6_WORKFLOW_VALIDATION} \<longrightarrow>
       \<not> success (fst (startBuilding toLowerCase m)) \<and>
       snd (startBuilding toLowerCase m) = m"
      using startBuilding_passes [of toLowerCase m] eq
        building_allowed_from [of "current_state (executionState m)"]
      by (simp add: transitionTo_rejected)
    show ?thesis
      using fails moves stays by blast
  qed
  show ?thesis
    using unconfirmed rest by blast
qed

text \<open>
  The instances for claim C5: with \<^verbatim>\<open>google\<close> and \<^verbatim>\<open>slack\<close> required and only \<^verbatim>\<open>google\<close>
  provided, the failure names \<^verbatim>\<open>slack\<close> and nothing else; with no understanding
  confirmed the call fails; with both provided, from credential collection, the machine
  moves to building.
\<close>

theorem startBuilding_guards_witness:
  "startBuilding ascii_toLowerCase
     (awaiting_credentials [''google'', ''slack''] [''google'' \<mapsto> ''token'']) =
     (\<lparr>success = False,
       error = Some ''Cannot build workflow: Missing required credentials: slack''\<rparr>,
      awaiting_credentials [''google'', ''slack''] [''google'' \<mapsto> ''token'']) \<and>
   \<not> success (fst (startBuilding ascii_toLowerCase (reach [STATE_1_USER_PROMPT_RECEIVED]))) \<and>
   success (fst (startBuilding ascii_toLowerCase
     (awaiting_credentials [''google'', ''slack'']
        [''google'' \<mapsto> ''token'', ''slack'' \<mapsto> ''xoxb'']))) \<and>
   current_state (executionState (snd (startBuilding ascii_toLowerCase
     (awaiting_credentials [''google'', ''slack'']
        [''google'' \<mapsto> ''token'', ''slack'' \<mapsto> ''xoxb''])))) =
     STATE_5_WORKFLOW_BUILDING"
proof -
  have unconfirmed:
    "final_understanding (executionState (reach [STATE_1_USER_PROMPT_RECEIVED])) = []"
    by (simp add: manager_defs operation_defs)
  show ?thesis
    using
      startBuilding_guards
        [of "awaiting_credentials [''google'', ''slack''] [''google'' \<mapsto> ''token'']"
            ascii_toLowerCase]
      startBuilding_guards [of "reach [STATE_1_USER_PROMPT_RECEIVED]" ascii_toLowerCase]
      startBuilding_guards
        [of "awaiting_credentials [''google'', ''slack'']
               [''google'' \<mapsto> ''token'', ''slack'' \<mapsto> ''xoxb'']"
            ascii_toLowerCase]
    by (simp add: awaiting_credentials_eval ascii_toLowerCase_eval unconfirmed
        Object_prototype_def)
qed

subsection \<open>C6: transitionTo\<close>

text \<open>
  Claim C6. For every manager, target and reason, \<open>transitionTo\<close> either succeeds or fails.
  When it succeeds, the target is in the table under the current state, the execution
  state afterwards is the one before with exactly one entry appended to the history
  (the target, the clock reading, and the reason, which is \<^verbatim>\<open>State transition\<close> when none
  or an empty one is given) and the current state set to the target. When it fails, the
  result carries an error message and the manager is the one before the call; the method
  returns a result in either case and has no throwing path. So the history grows by one
  on success and by nothing on failure. After construction and after \<open>reset\<close> the history
  is the single idle entry, and its first entry is still the idle state after any
  sequence of calls of the manager's methods, whatever function \<open>toLowerCase\<close> is.
\<close>

theorem transitionTo_atomic:
  "(success (fst (transitionTo m T r)) \<longrightarrow>
      T \<in> set (ALLOWED_TRANSITIONS (current_state (executionState m))) \<and>
      error (fst (transitionTo m T r)) = None \<and>
      executionState (snd (transitionTo m T r)) =
        (executionState m)
          \<lparr>state_history := state_history (executionState m)
             @ [\<lparr>state = T, timestamp = shd (clock m),
                 reason = Some (or_default r ''State transition'')\<rparr>],
           current_state := T\<rparr> \<and>
      length (state_history (executionState (snd (transitionTo m T r)))) =
        length (state_history (executionState m)) + 1) \<and>
   (\<not> success (fst (transitionTo m T r)) \<longrightarrow>
      T \<notin> set (ALLOWED_TRANSITIONS (current_state (executionState m))) \<and>
      error (fst (transitionTo m T r)) \<noteq> None \<and>
      snd (transitionTo m T r) = m) \<and>
   map state (state_history (executionState (new_manager d c))) = [STATE_0_IDLE] \<and>
   map state (state_history (executionState (reset m))) = [STATE_0_IDLE] \<and>
   starts_idle (foldl (perform toLowerCase) (new_manager d c) calls) \<and>
   starts_idle (foldl (perform toLowerCase) (reset m) calls)"
proof -
  have "success (fst (transitionTo m T r)) \<longrightarrow>
      T \<in> set (ALLOWED_TRANSITIONS (current_state (executionState m))) \<and>
      error (fst (transitionTo m T r)) = None \<and>
      executionState (snd (transitionTo m T r)) =
        (executionState m)
          \<lparr>state_history := state_history (executionState m)
             @ [\<lparr>state = T, timestamp = shd (clock m),
                 reason = Some (or_default r ''State transition'')\<rparr>],
           current_state := T\<rparr> \<and>
      length (state_history (executionState (snd (transitionTo m T r)))) =
        length (state_history (executionState m)) + 1"
    by (cases "T \<in> set (ALLOWED_TRANSITIONS (current_state (executionState m)))")
       (simp_all add: transitionTo_allowed transitionTo_rejected)
  moreover have "\<not> success (fst (transitionTo m T r)) \<longrightarrow>
      T \<notin> set (ALLOWED_TRANSITIONS (current_state (executionState m))) \<and>
      error (fst (transitionTo m T r)) \<noteq> None \<and>
      snd (transitionTo m T r) = m"
    by (cases "T \<in> set (ALLOWED_TRANSITIONS (current_state (executionState m)))")
       (simp_all add: transitionTo_allowed transitionTo_rejected)
  moreover have "map state (state_history (executionState (new_manager d c))) = [STATE_0_IDLE]"
    by (simp add: new_manager_def initializeState_def)
  moreover have "map state (state_history (executionState (reset m))) = [STATE_0_IDLE]"
    by (simp add: reset_def initializeState_def)
  moreover have "starts_idle (foldl (perform toLowerCase) (new_manager d c) calls)"
    by (simp add: starts_idle_foldl starts_idle_new)
  moreover have "starts_idle (foldl (perform toLowerCase) (reset m) calls)"
    by (simp add: starts_idle_foldl starts_idle_reset)
  ultimately show ?thesis by blast
qed

text \<open>
  The instances for claim C6: from a fresh manager the move to
  \<open>STATE_1_USER_PROMPT_RECEIVED\<close> succeeds and gives a history of two entries; the move to
  \<open>STATE_5_WORKFLOW_BUILDING\<close> fails and returns the fresh manager.
\<close>

theorem transitionTo_atomic_witness:
  "success (fst (transitionTo fresh STATE_1_USER_PROMPT_RECEIVED (Some ''go''))) \<and>
   state_history
     (executionState (snd (transitionTo fresh STATE_1_USER_PROMPT_RECEIVED (Some ''go'')))) =
     [\<lparr>state = STATE_0_IDLE, timestamp = ''2024-01-01T00:00:00.000Z'',
       reason = Some ''Initialized''\<rparr>,
      \<lparr>state = STATE_1_USER_PROMPT_RECEIVED, timestamp = ''2024-01-01T00:00:00.000Z'',
       reason = Some ''go''\<rparr>] \<and>
   \<not> success (fst (transitionTo fresh STATE_5_WORKFLOW_BUILDING None)) \<and>
   snd (transitionTo fresh STATE_5_WORKFLOW_BUILDING None) = fresh \<and>
   starts_idle (foldl (perform ascii_toLowerCase) fresh
     [Call_setUserPrompt ''mail me'', Call_handleError ''boom'', Call_retryBuilding,
      Call_startBuilding])"
proof -
  have s: "success (fst (transitionTo fresh STATE_1_USER_PROMPT_RECEIVED (Some ''go'')))"
    by (simp add: transitionTo_allowed fresh_eval)
  have f: "\<not> success (fst (transitionTo fresh STATE_5_WORKFLOW_BUILDING None))"
    by (simp add: transitionTo_rejected fresh_eval)
  show ?thesis
    using s f
      transitionTo_atomic [where m = fresh and T = STATE_1_USER_PROMPT_RECEIVED
        and r = "Some ''go''" and d = False and c = fixed_clock
        and toLowerCase = ascii_toLowerCase
        and calls = "[Call_setUserPrompt ''mail me'', Call_handleError ''boom'',
          Call_retryBuilding, Call_startBuilding]"]
      transitionTo_atomic [where m = fresh and T = STATE_5_WORKFLOW_BUILDING and r = None
        and d = False and c = fixed_clock and toLowerCase = ascii_toLowerCase
        and calls = "[]"]
    by (simp add: manager_defs)
qed

subsection \<open>C7: setClarifyingAnswers\<close>

text \<open>
  Claim C7, as stated, fails: \<open>setClarifyingAnswers\<close> assigns its argument to the field.
  After a first round that binds \<^verbatim>\<open>q1\<close> and a second round that mentions only \<^verbatim>\<open>q2\<close>,
  the binding of \<^verbatim>\<open>q1\<close> is gone.
\<close>

theorem setClarifyingAnswers_counterexample:
  "clarifying_answers (executionState (setClarifyingAnswers fresh first_answers)) ''q1''
     = Some ''every morning'' \<and>
   second_answers ''q1'' = None \<and>
   clarifying_answers
     (executionState
        (setClarifyingAnswers (setClarifyingAnswers fresh first_answers) second_answers))
     ''q1'' = None"
  by (simp add: setClarifyingAnswers_def first_answers_def second_answers_def)

text \<open>
  Claim C7, amended: \<open>clarifying_answers\<close> is overwritten by each call. After a call of
  \<open>setClarifyingAnswers\<close> the execution state is the one before with \<open>clarifying_answers\<close>
  equal to the argument of the call, so after any sequence of calls the field holds the
  argument of the last call, and a binding of an earlier call remains only if the last
  call gives it again. No sequence of calls changes the current state or the history.
\<close>

theorem setClarifyingAnswers_overwrites:
  "executionState (setClarifyingAnswers m answers) =
     (executionState m)\<lparr>clarifying_answers := answers\<rparr> \<and>
   executionState (foldl setClarifyingAnswers m (rounds @ [answers])) =
     (executionState m)\<lparr>clarifying_answers := answers\<rparr> \<and>
   current_state (executionState (foldl setClarifyingAnswers m rounds)) =
     current_state (executionState m) \<and>
   state_history (executionState (foldl setClarifyingAnswers m rounds)) =
     state_history (executionState m)"
proof -
  have step: "executionState (setClarifyingAnswers m' a) =
      (executionState m')\<lparr>clarifying_answers := a\<rparr>" for m' a
    by (simp add: setClarifyingAnswers_def)
  have keep: "current_state (executionState (foldl setClarifyingAnswers m' rs)) =
        current_state (executionState m') \<and>
      state_history (executionState (foldl setClarifyingAnswers m' rs)) =
        state_history (executionState m') \<and>
      executionState (foldl setClarifyingAnswers m' rs)\<lparr>clarifying_answers := a\<rparr> =
        (executionState m')\<lparr>clarifying_answers := a\<rparr>" for m' rs a
    by (induction rs arbitrary: m') (simp_all add: step)
  show ?thesis
    using keep [of m rounds answers] by (simp add: step)
qed

text \<open>
  The instance for claim C7: after the two rounds the field is the second round's
  argument, and the manager is still idle.
\<close>

theorem setClarifyingAnswers_overwrites_witness:
  "clarifying_answers
     (executionState (foldl setClarifyingAnswers fresh [first_answers, second_answers]))
     = second_answers \<and>
   current_state
     (executionState (foldl setClarifyingAnswers fresh [first_answers, second_answers]))
     = STATE_0_IDLE"
  using setClarifyingAnswers_overwrites [of fresh second_answers "[first_answers]"]
    setClarifyingAnswers_overwrites [of fresh second_answers "[first_answers, second_answers]"]
  by (simp add: fresh_eval)

subsection \<open>C8: markWorkflowReady\<close>

text \<open>
  Claim C8. \<open>markWorkflowReady\<close> fails whenever \<open>validation_errors\<close> is not empty, with a
  message that counts the errors. It fails whenever \<open>nodes\<close> of the blueprint is absent or
  the empty list; when there are no validation errors the message then is
  \<^verbatim>\<open>Cannot mark workflow as ready: No workflow blueprint\<close>, which differs from the first
  message whatever the count. Either failure leaves the manager as it was. When there are
  no validation errors, \<open>nodes\<close> is a non-empty list and the machine is in
  \<open>STATE_6_WORKFLOW_VALIDATION\<close>, the call moves it to \<open>STATE_7_WORKFLOW_READY\<close>, which has
  no successor.
\<close>

theorem markWorkflowReady_guards:
  "(validation_errors (executionState m) \<noteq> [] \<longrightarrow>
      markWorkflowReady m =
        (\<lparr>success = False,
          error = Some (''Cannot mark workflow as ready: ''
                    @ string_of_nat (length (validation_errors (executionState m)))
                    @ '' validation errors remain'')\<rparr>, m)) \<and>
   (nodes (workflow_blueprint (executionState m)) = None \<or>
    nodes (workflow_blueprint (executionState m)) = Some [] \<longrightarrow>
      \<not> success (fst (markWorkflowReady m)) \<and> snd (markWorkflowReady m) = m) \<and>
   (validation_errors (executionState m) = [] \<and>
    (nodes (workflow_blueprint (executionState m)) = None \<or>
     nodes (workflow_blueprint (executionState m)) = Some []) \<longrightarrow>
      markWorkflowReady m =
        (\<lparr>success = False,
          error = Some ''Cannot mark workflow as ready: No workflow blueprint''\<rparr>, m)) \<and>
   ''Cannot mark workflow as ready: '' @ string_of_nat n @ '' validation errors remain''
     \<noteq> ''Cannot mark workflow as ready: No workflow blueprint'' \<and>
   (validation_errors (executionState m) = [] \<and>
    nodes (workflow_blueprint (executionState m)) = Some (x # xs) \<and>
    current_state (executionState m) = STATE_6_WORKFLOW_VALIDATION \<longrightarrow>
      markWorkflowReady m =
        (\<lparr>success = True, error = None\<rparr>,
         m\<lparr>executionState := (executionState m)
              \<lparr>state_history := state_history (executionState m)
                 @ [\<lparr>state = STATE_7_WORKFLOW_READY, timestamp = shd (clock m),
                     reason = Some ''Workflow validated and ready''\<rparr>],
               current_state := STATE_7_WORKFLOW_READY\<rparr>,
           clock := stl (clock m)\<rparr>)) \<and>
   ALLOWED_TRANSITIONS STATE_7_WORKFLOW_READY = []"
proof -
  have a: "validation_errors (executionState m) \<noteq> [] \<longrightarrow>
      markWorkflowReady m =
        (\<lparr>success = False,
          error = Some (''Cannot mark workflow as ready: ''
                    @ string_of_nat (length (validation_errors (executionState m)))
                    @ '' validation errors remain'')\<rparr>, m)"
    by (simp add: markWorkflowReady_def)
  have c: "validation_errors (executionState m) = [] \<and>
    (nodes (workflow_blueprint (executionState m)) = None \<or>
     nodes (workflow_blueprint (executionState m)) = Some []) \<longrightarrow>
      markWorkflowReady m =
        (\<lparr>success = False,
          error = Some ''Cannot mark workflow as ready: No workflow blueprint''\<rparr>, m)"
    by (auto simp: markWorkflowReady_def)
  have b: "nodes (workflow_blueprint (executionState m)) = None \<or>
    nodes (workflow_blueprint (executionState m)) = Some [] \<longrightarrow>
      \<not> success (fst (markWorkflowReady m)) \<and> snd (markWorkflowReady m) = m"
    using a c by (cases "validation_errors (executionState m) = []") auto
  have e: "validation_errors (executionState m) = [] \<and>
    nodes (workflow_blueprint (executionState m)) = Some (x # xs) \<and>
    current_state (executionState m) = STATE_6_WORKFLOW_VALIDATION \<longrightarrow>
      markWorkflowReady m =
        (\<lparr>success = True, error = None\<rparr>,
         m\<lparr>executionState := (executionState m)
              \<lparr>state_history := state_history (executionState m)
                 @ [\<lparr>state = STATE_7_WORKFLOW_READY, timestamp = shd (clock m),
                     reason = Some ''Workflow validated and ready''\<rparr>],
               current_state := STATE_7_WORKFLOW_READY\<rparr>,
           clock := stl (clock m)\<rparr>)"
    by (simp add: markWorkflowReady_def transitionTo_allowed)
  show ?thesis
    using a b c e validation_message_distinct [of n] by simp
qed

text \<open>
  The instances for claim C8: the validated manager becomes ready; with one validation
  error added the call fails counting one error; the manager that reached validation with
  no blueprint fails for the missing blueprint.
\<close>

theorem markWorkflowReady_guards_witness:
  "success (fst (markWorkflowReady validated)) \<and>
   current_state (executionState (snd (markWorkflowReady validated)))
     = STATE_7_WORKFLOW_READY \<and>
   markWorkflowReady (addValidationError validated sample_error) =
     (\<lparr>success = False,
       error = Some ''Cannot mark workflow as ready: 1 validation errors remain''\<rparr>,
      addValidationError validated sample_error) \<and>
   markWorkflowReady (reach validation_path) =
     (\<lparr>success = False,
       error = Some ''Cannot mark workflow as ready: No workflow blueprint''\<rparr>,
      reach validation_path)"
proof -
  have added:
    "validation_errors (executionState (addValidationError validated sample_error))
       = [sample_error]"
    by (simp add: addValidationError_def validated_eval)
  show ?thesis
    using markWorkflowReady_guards [of validated 0 "JString ''trigger''" "[]"]
      markWorkflowReady_guards [of "addValidationError validated sample_error" 0 JNull "[]"]
      markWorkflowReady_guards [of "reach validation_path" 0 JNull "[]"]
    by (simp add: validated_eval added reach_validation_path_eval string_of_nat_small
        digit_def)
qed

subsection \<open>C9 and C10: wizard steps\<close>

text \<open>
  Claim C9: mapping a wizard step to a state and back gives the step again for
  \<^verbatim>\<open>idle\<close>, \<^verbatim>\<open>building\<close> and \<^verbatim>\<open>complete\<close>, and gives \<^verbatim>\<open>questioning\<close> for both
  \<^verbatim>\<open>questioning\<close> and \<^verbatim>\<open>refining\<close>; \<open>mapStateToWizardStep\<close> sends validation and
  building to \<^verbatim>\<open>building\<close> and error handling to \<^verbatim>\<open>idle\<close>. At each of the five steps
  \<open>mapWizardStepToState\<close> returns a state, and \<open>map_js_value\<close> applies
  \<open>mapStateToWizardStep\<close> to it.
\<close>

theorem wizard_step_round_trip:
  "map_js_value mapStateToWizardStep (mapWizardStepToState ''idle'') = Value ''idle'' \<and>
   map_js_value mapStateToWizardStep (mapWizardStepToState ''building'') = Value ''building'' \<and>
   map_js_value mapStateToWizardStep (mapWizardStepToState ''complete'') = Value ''complete'' \<and>
   map_js_value mapStateToWizardStep (mapWizardStepToState ''questioning'')
     = Value ''questioning'' \<and>
   map_js_value mapStateToWizardStep (mapWizardStepToState ''refining'')
     = Value ''questioning'' \<and>
   mapStateToWizardStep STATE_6_WORKFLOW_VALIDATION = ''building'' \<and>
   mapStateToWizardStep STATE_5_WORKFLOW_BUILDING = ''building'' \<and>
   mapStateToWizardStep STATE_ERROR_HANDLING = ''idle''"
  by (simp add: mapWizardStepToState_def mapStateToWizardStep_def get_property_def stepMap_def)

text \<open>
  Claim C10 says that \<open>mapWizardStepToState\<close> returns the idle state for every string that
  is not one of the eight wizard steps. \<^verbatim>\<open>stepMap\<close> is an object literal, so
  \<^verbatim>\<open>stepMap[step]\<close> also finds what the literal inherits from \<^verbatim>\<open>Object.prototype\<close>. The
  string \<^verbatim>\<open>constructor\<close> is not a wizard step; \<^verbatim>\<open>stepMap['constructor']\<close> is the inherited
  constructor function, which is truthy, so the fallback to the idle state is not taken
  and the function is what \<open>mapWizardStepToState\<close> returns.
\<close>

theorem mapWizardStepToState_inherited:
  "''constructor'' \<notin> set [''idle'', ''analyzing'', ''questioning'', ''refining'',
      ''confirmation'', ''credentials'', ''building'', ''complete''] \<and>
   mapWizardStepToState ''constructor'' = Object_prototype_member ''constructor'' \<and>
   mapWizardStepToState ''constructor'' \<noteq> Value STATE_0_IDLE"
  by (simp add: mapWizardStepToState_def get_property_def stepMap_def Object_prototype_def)

end
